theory Spec2Isabelle
  imports Complex_Main "HOL-Library.Sublist" "HOL-Library.List_Lexorder"
begin

section \<open>Python strings\<close>

text \<open>
  A Python \<open>str\<close> is a sequence of Unicode code points. Typographic quotes and dashes
  (U+201C, U+2013, ...) take part in the code, so a string is modelled as a list of code
  points (natural numbers), not as a list of 8-bit characters. \<open>str\<close> embeds an ASCII
  literal.
\<close>

type_synonym ustr = "nat list"

definition str :: "string \<Rightarrow> ustr" where
  "str s = map of_char s"

text \<open>
  \<open>is_space\<close> is the set of code points for which Python's \<open>str.isspace\<close> holds; it is
  the set that \<open>str.strip()\<close> removes and that \<open>\s\<close> matches in a \<open>str\<close> pattern.
  \<open>is_digit\<close> and \<open>lower_cp\<close> cover the ASCII digits and the ASCII letters: code points
  beyond ASCII are taken to be neither decimal digits nor cased letters.
\<close>

definition is_space :: "nat \<Rightarrow> bool" where
  "is_space c \<longleftrightarrow> (9 \<le> c \<and> c \<le> 13) \<or> (28 \<le> c \<and> c \<le> 32) \<or> c = 133 \<or> c = 160
     \<or> c = 5760 \<or> (8192 \<le> c \<and> c \<le> 8202) \<or> c = 8232 \<or> c = 8233 \<or> c = 8239
     \<or> c = 8287 \<or> c = 12288"

definition is_digit :: "nat \<Rightarrow> bool" where
  "is_digit c \<longleftrightarrow> 48 \<le> c \<and> c \<le> 57"

definition lower_cp :: "nat \<Rightarrow> nat" where
  "lower_cp c = (if 65 \<le> c \<and> c \<le> 90 then c + 32 else c)"

definition py_lower :: "ustr \<Rightarrow> ustr" where
  "py_lower s = map lower_cp s"

definition py_rstrip :: "(nat \<Rightarrow> bool) \<Rightarrow> ustr \<Rightarrow> ustr" where
  "py_rstrip P s = rev (dropWhile P (rev s))"

definition py_strip :: "ustr \<Rightarrow> ustr" where
  "py_strip s = py_rstrip is_space (dropWhile is_space s)"

text \<open>
  \<open>s.replace(old, new)\<close>: the occurrences of \<open>old\<close> are replaced from left to right
  without overlap. The source only calls it with a non-empty \<open>old\<close>.
\<close>

function py_replace :: "ustr \<Rightarrow> ustr \<Rightarrow> ustr \<Rightarrow> ustr" where
  "py_replace old new [] = []"
| "py_replace old new (c # cs) =
     (if old \<noteq> [] \<and> prefix old (c # cs)
      then new @ py_replace old new (drop (length old) (c # cs))
      else c # py_replace old new cs)"
  by pat_completeness auto
termination
  by (relation "measure (\<lambda>(old, new, s). length s)") auto

text \<open>\<open>s.split(sep)\<close> for a separator of one code point.\<close>

fun py_split :: "nat \<Rightarrow> ustr \<Rightarrow> ustr list" where
  "py_split sep [] = [[]]"
| "py_split sep (c # cs) =
     (if c = sep then [] # py_split sep cs
      else (case py_split sep cs of [] \<Rightarrow> [[c]] | w # ws \<Rightarrow> (c # w) # ws))"

text \<open>\<open>x in s\<close> on strings: \<open>x\<close> occurs in \<open>s\<close> as a contiguous substring.\<close>

fun py_in :: "ustr \<Rightarrow> ustr \<Rightarrow> bool" where
  "py_in x [] = (x = [])"
| "py_in x (c # cs) = (prefix x (c # cs) \<or> py_in x cs)"

section \<open>The regular expressions of \<open>_normalize_value\<close> and \<open>_match_value\<close>\<close>

text \<open>
  \<open>re.sub(r'\s*(mm|tons?|lbs?|in|inches|")\s*$', '', s)\<close>. A match has to reach the end
  of the string, so the substitution cuts the string at the leftmost position where the
  pattern matches the whole rest: \<open>unit_rest t\<close> says that \<open>t\<close> is optional white space,
  one unit token and optional white space.
\<close>

definition unit_tokens :: "ustr list" where
  "unit_tokens = [str ''mm'', str ''ton'', str ''tons'', str ''lb'', str ''lbs'',
                  str ''in'', str ''inches'', [34]]"

definition unit_rest :: "ustr \<Rightarrow> bool" where
  "unit_rest t =
     (let r = dropWhile is_space t
      in list_ex (\<lambda>tok. prefix tok r \<and> list_all is_space (drop (length tok) r)) unit_tokens)"

fun sub_trailing_unit :: "ustr \<Rightarrow> ustr" where
  "sub_trailing_unit [] = []"
| "sub_trailing_unit (c # cs) =
     (if unit_rest (c # cs) then [] else c # sub_trailing_unit cs)"

text \<open>\<open>re.sub(r'(\d)\s*mm', r'\1mm', s)\<close>: every digit, white space, \<open>mm\<close> from the left.\<close>

function sub_digit_mm :: "ustr \<Rightarrow> ustr" where
  "sub_digit_mm [] = []"
| "sub_digit_mm (c # cs) =
     (if is_digit c \<and> prefix (str ''mm'') (dropWhile is_space cs)
      then c # str ''mm'' @ sub_digit_mm (drop 2 (dropWhile is_space cs))
      else c # sub_digit_mm cs)"
  by pat_completeness auto
termination
proof (relation "measure length")
  fix c :: nat and cs :: ustr
  have "length (dropWhile is_space cs) \<le> length cs"
    by (rule length_dropWhile_le)
  then show "(drop 2 (dropWhile is_space cs), c # cs) \<in> measure length"
    by simp
qed simp_all

text \<open>\<open>re.sub(r'\s+', ' ', s)\<close>: every maximal run of white space becomes one space.\<close>

function sub_spaces :: "ustr \<Rightarrow> ustr" where
  "sub_spaces [] = []"
| "sub_spaces (c # cs) =
     (if is_space c then 32 # sub_spaces (dropWhile is_space cs) else c # sub_spaces cs)"
  by pat_completeness auto
termination
  by (relation "measure length") (auto intro: le_imp_less_Suc length_dropWhile_le)

text \<open>\<open>re.findall(r'[\d.]+', s)\<close>: the maximal runs of digits and dots, from the left.\<close>

definition is_numch :: "nat \<Rightarrow> bool" where
  "is_numch c \<longleftrightarrow> is_digit c \<or> c = 46"

function findall_nums :: "ustr \<Rightarrow> ustr list" where
  "findall_nums [] = []"
| "findall_nums (c # cs) =
     (if is_numch c
      then (c # takeWhile is_numch cs) # findall_nums (dropWhile is_numch cs)
      else findall_nums cs)"
  by pat_completeness auto
termination
  by (relation "measure length") (auto intro: le_imp_less_Suc length_dropWhile_le)

text \<open>
  \<open>float(t)\<close> on a run of digits and dots: the value when \<open>t\<close> is a decimal numeral (at
  least one digit, at most one dot), \<open>None\<close> for the \<open>ValueError\<close> otherwise. The value is
  kept as an exact rational.
\<close>

definition digits_val :: "ustr \<Rightarrow> nat" where
  "digits_val ds = foldl (\<lambda>a c. 10 * a + (c - 48)) 0 ds"

definition py_float :: "ustr \<Rightarrow> rat option" where
  "py_float t =
     (let ip = takeWhile is_digit t; r = dropWhile is_digit t
      in case r of
           [] \<Rightarrow> (if ip = [] then None else Some (of_nat (digits_val ip)))
         | d # fp \<Rightarrow>
             (if d = 46 \<and> list_all is_digit fp \<and> (ip \<noteq> [] \<or> fp \<noteq> [])
              then Some (of_nat (digits_val (ip @ fp)) / 10 ^ length fp)
              else None))"

section \<open>\<open>name_parser._normalize_value\<close>\<close>

definition normalize_value :: "ustr \<Rightarrow> ustr" where
  "normalize_value val =
     (if val = [] then []
      else
        let s = py_lower (py_strip val);
            s = py_replace [8220] [34] s;
            s = py_replace [8221] [34] s;
            s = py_replace [8243] [34] s;
            s = py_replace [8216] [39] s;
            s = py_replace [8217] [39] s;
            s = py_replace [8242] [39] s;
            s = py_replace [8211] [45] s;
            s = py_replace [8212] [45] s;
            s = sub_trailing_unit s;
            s = sub_digit_mm s;
            s = sub_spaces s;
            s = py_replace [92, 44] [44] s;
            s = py_replace [44] [] s;
            s = py_replace [34] [] s;
            s = py_replace [39] [] s
        in py_rstrip (\<lambda>c. c = 47) s)"

section \<open>\<open>name_parser._match_value\<close>\<close>

definition synonyms :: "ustr list list" where
  "synonyms =
    [[str ''excavators'', str ''excavator'', str ''excavator attachment''],
     [str ''mini excavators'', str ''mini excavator'', str ''mini excavator attachment''],
     [str ''skid steer'', str ''skid steer attachment'', str ''skid steer loader''],
     [str ''pin on'', str ''pin on style'', str ''pin on coupler'', str ''pin on style coupler'',
      str ''no quick coupler pin on coupler'', str ''backhoe pin on style'',
      str ''backhoe pin on coupler'', str ''bolt-on adapter''],
     [str ''bobcat x-change coupler'', str ''bobcat x-change'', str ''bobcat style'',
      str ''bobcat x-change style''],
     [str ''john deere wedge lock coupler'', str ''john deere wedge lock'',
      str ''john deere style'', str ''jd wedge lock'', str ''deere wedge lock coupler'',
      str ''deere style''],
     [str ''kubota wedge lock coupler'', str ''kubota wedge lock'', str ''kubota style'',
      str ''kubota wedge style'', str ''kubota wedge lock style''],
     [str ''cat pin grabber coupler'', str ''cat pin grabber'', str ''cat pin grabber style''],
     [str ''dual lock hydraulic quick coupler'', str ''dual lock hqc'',
      str ''dual lock coupler'']]"

definition same_synonym_set :: "ustr \<Rightarrow> ustr \<Rightarrow> bool" where
  "same_synonym_set p a = list_ex (\<lambda>syn_set. p \<in> set syn_set \<and> a \<in> set syn_set) synonyms"

text \<open>The verdict: \<open>Some True\<close> is a match, \<open>Some False\<close> a mismatch, \<open>None\<close> "can't compare".\<close>

definition nums_equal :: "ustr \<Rightarrow> ustr \<Rightarrow> bool" where
  "nums_equal x y =
     (let p_nums = findall_nums x; a_nums = findall_nums y
      in p_nums \<noteq> [] \<and> a_nums \<noteq> [] \<and> p_nums = a_nums)"

definition match_value :: "ustr \<Rightarrow> ustr \<Rightarrow> bool option" where
  "match_value parsed_val actual_val =
     (let p = normalize_value parsed_val; a = normalize_value actual_val
      in if p = [] \<or> a = [] then None
         else if p = a then Some True
         else if 124 \<in> set p then
           Some (list_ex (\<lambda>part. part = a \<or> nums_equal part a)
                   (map normalize_value (py_split 124 parsed_val)))
         else if same_synonym_set p a then Some True
         else if 44 \<in> set a \<and>
                 list_ex (\<lambda>part. normalize_value part = p \<or> same_synonym_set p (normalize_value part))
                   (map py_strip (py_split 44 a))
           then Some True
         else
           let p_nums = findall_nums p; a_nums = findall_nums a
           in if p_nums \<noteq> [] \<and> a_nums \<noteq> [] \<and> p_nums = a_nums then Some True
              else if p_nums \<noteq> [] \<and> a_nums \<noteq> [] \<and> length p_nums = 1 \<and> length a_nums = 1
                      \<and> py_float (hd p_nums) \<noteq> None \<and> py_float (hd a_nums) \<noteq> None
                then Some (\<bar>the (py_float (hd p_nums)) - the (py_float (hd a_nums))\<bar> < 1 / 10)
              else Some (py_in p a \<or> py_in a p))"

section \<open>Regular expressions of \<open>parse_name\<close>\<close>

text \<open>
  The patterns of \<open>parse_name\<close> are kept as syntax trees and run by a backtracking
  matcher, as Python's \<open>re\<close> runs them: \<open>rmatch r s\<close> lists what can remain of \<open>s\<close> after a
  match of \<open>r\<close> at its start, in the order in which the engine tries the matches (a star
  is greedy, an alternative goes left to right).
\<close>

datatype rx = Chr "nat \<Rightarrow> bool" | Eps | Seq rx rx | Alt rx rx | Star rx

fun rmatch :: "rx \<Rightarrow> ustr \<Rightarrow> ustr list" where
  "rmatch (Chr P) [] = []"
| "rmatch (Chr P) (c # cs) = (if P c then [cs] else [])"
| "rmatch Eps s = [s]"
| "rmatch (Seq a b) s = concat (map (rmatch b) (rmatch a s))"
| "rmatch (Alt a b) s = rmatch a s @ rmatch b s"
| "rmatch (Star a) s =
     concat (map (\<lambda>t. if length t < length s then rmatch (Star a) t else []) (rmatch a s)) @ [s]"

definition Plus :: "rx \<Rightarrow> rx" where
  "Plus r = Seq r (Star r)"

definition Opt :: "rx \<Rightarrow> rx" where
  "Opt r = Alt r Eps"

definition seqs :: "rx list \<Rightarrow> rx" where
  "seqs rs = foldr Seq rs Eps"

text \<open>A literal, and a literal under the flag \<open>(?i)\<close>.\<close>

definition lit :: "string \<Rightarrow> rx" where
  "lit s = seqs (map (\<lambda>c. Chr (\<lambda>x. x = of_char c)) s)"

definition lit_ci :: "string \<Rightarrow> rx" where
  "lit_ci s = seqs (map (\<lambda>c. Chr (\<lambda>x. lower_cp x = lower_cp (of_char c))) s)"

definition sp :: rx where "sp = Chr is_space"

definition dg :: rx where "dg = Chr is_digit"

definition is_quote :: "nat \<Rightarrow> bool" where
  "is_quote c \<longleftrightarrow> c = 34 \<or> c = 8220 \<or> c = 8221 \<or> c = 8243"

definition is_word :: "nat \<Rightarrow> bool" where
  "is_word c \<longleftrightarrow> is_digit c \<or> (65 \<le> c \<and> c \<le> 90) \<or> (97 \<le> c \<and> c \<le> 122) \<or> c = 95"

text \<open>
  A pattern is given as the list of its consecutive pieces, so that the text of a group
  can be read off: \<open>seg_match\<close> returns the text that each piece matched in the first
  match the engine finds. \<open>re_match\<close> is \<open>re.match\<close> (at the start of the string),
  \<open>re_search\<close> is \<open>re.search\<close> (at the leftmost position that has a match).
\<close>

fun first_some :: "('a \<Rightarrow> 'b option) \<Rightarrow> 'a list \<Rightarrow> 'b option" where
  "first_some f [] = None"
| "first_some f (x # xs) = (case f x of None \<Rightarrow> first_some f xs | Some y \<Rightarrow> Some y)"

fun seg_match :: "rx list \<Rightarrow> ustr \<Rightarrow> ustr list option" where
  "seg_match [] s = Some []"
| "seg_match (r # rs) s =
     first_some (\<lambda>t. case seg_match rs t of
                        None \<Rightarrow> None
                      | Some gs \<Rightarrow> Some (take (length s - length t) s # gs))
       (rmatch r s)"

definition re_match :: "rx list \<Rightarrow> ustr \<Rightarrow> ustr list option" where
  "re_match segs s = seg_match segs s"

fun re_search :: "rx list \<Rightarrow> ustr \<Rightarrow> ustr list option" where
  "re_search segs [] = seg_match segs []"
| "re_search segs (c # cs) =
     (case seg_match segs (c # cs) of None \<Rightarrow> re_search segs cs | Some gs \<Rightarrow> Some gs)"

definition found :: "rx \<Rightarrow> ustr \<Rightarrow> bool" where
  "found r s = (re_search [r] s \<noteq> None)"

section \<open>\<open>name_parser.parse_name\<close>\<close>

text \<open>
  The result of \<open>parse_name\<close> is the dict \<open>attrs\<close>, a map from label to value. Each block
  of the function is one \<open>rule_\<close> below, from the title (already stripped) and the dict so
  far to the dict after the block.
\<close>

type_synonym attrs = "ustr \<rightharpoonup> ustr"

text \<open>\<open>^(\d+(?:\.\d+)?)["\u201c\u201d\u2033]\s\<close>\<close>

definition rx_bucket_size :: "rx list" where
  "rx_bucket_size = [Seq (Plus dg) (Opt (Seq (Chr (\<lambda>c. c = 46)) (Plus dg))), Chr is_quote, sp]"

definition rule_bucket_size :: "ustr \<Rightarrow> attrs \<Rightarrow> attrs" where
  "rule_bucket_size title a =
     (case re_match rx_bucket_size title of
        Some (g1 # gs) \<Rightarrow> a(str ''Bucket Size'' \<mapsto> g1 @ [34])
      | _ \<Rightarrow> a)"

text \<open>\<open>^(\d+)\s*mm\s+Diameter\<close>\<close>

definition rx_diameter :: "rx list" where
  "rx_diameter = [Plus dg, seqs [Star sp, lit ''mm'', Plus sp, lit ''Diameter'']]"

definition rule_diameter :: "ustr \<Rightarrow> attrs \<Rightarrow> attrs" where
  "rule_diameter title a =
     (case re_match rx_diameter title of
        Some (g1 # gs) \<Rightarrow> a(str ''Diameter (mm)'' \<mapsto> g1 @ str '' mm'')
      | _ \<Rightarrow> a)"

text \<open>\<open>(\d+)\s*mm\s*[|/]\s*(\d+)\s*mm\s*[Pp]ins?\<close> and \<open>(\d+)\s*mm\s*[Pp]ins?\<close>\<close>

definition rx_pins :: rx where
  "rx_pins = seqs [Star sp, lit ''mm'', Star sp, Chr (\<lambda>c. c = 80 \<or> c = 112), lit ''in'',
                   Opt (lit ''s'')]"

definition rx_dual_pin :: "rx list" where
  "rx_dual_pin = [Plus dg,
                  seqs [Star sp, lit ''mm'', Star sp, Chr (\<lambda>c. c = 124 \<or> c = 47), Star sp],
                  Plus dg, rx_pins]"

definition rx_pin :: "rx list" where
  "rx_pin = [Plus dg, rx_pins]"

definition rule_pin_size :: "ustr \<Rightarrow> attrs \<Rightarrow> attrs" where
  "rule_pin_size title a =
     (case re_search rx_dual_pin title of
        Some (g1 # sep # g2 # gs) \<Rightarrow> a(str ''Pin Size'' \<mapsto> g1 @ str ''mm | '' @ g2 @ str ''mm'')
      | _ \<Rightarrow>
          (case re_search rx_pin title of
             Some (g1 # gs) \<Rightarrow> a(str ''Pin Size'' \<mapsto> g1 @ str ''mm'')
           | _ \<Rightarrow> a))"

text \<open>\<open>for\s+([\d.]+ ?[-\u2013\u2014] ?[\d.]+)\s*[Tt]ons?\s*(Mini\s+)?(\w+)\<close>\<close>

definition rx_weight :: "rx list" where
  "rx_weight =
     [Seq (lit ''for'') (Plus sp),
      seqs [Plus (Chr is_numch), Opt (lit '' ''), Chr (\<lambda>c. c = 45 \<or> c = 8211 \<or> c = 8212),
            Opt (lit '' ''), Plus (Chr is_numch)],
      seqs [Star sp, Chr (\<lambda>c. c = 84 \<or> c = 116), lit ''on'', Opt (lit ''s''), Star sp],
      Opt (Seq (lit ''Mini'') (Plus sp)),
      Plus (Chr is_word)]"

definition rule_weight_class :: "ustr \<Rightarrow> attrs \<Rightarrow> attrs" where
  "rule_weight_class title a =
     (case re_search rx_weight title of
        Some (pre # g1 # mid # g2 # g3 # gs) \<Rightarrow>
          (let tons = py_replace [8212] [45] (py_replace [8211] [45] (py_replace [32] [] g1));
               machine = py_strip g3
           in a(str ''Carrier Weight Class'' \<mapsto> tons @ str '' tons'',
                str ''Machine Type'' \<mapsto> (if g2 \<noteq> [] then str ''Mini '' @ machine else machine)))
      | _ \<Rightarrow> a)"

text \<open>The list \<open>coupler_patterns\<close>; the first pattern found in the title gives the value.\<close>

definition coupler_patterns :: "(rx \<times> ustr) list" where
  "coupler_patterns =
     [(seqs [lit_ci ''John'', Plus sp, lit_ci ''Deere'', Plus sp, lit_ci ''Wedge'', Plus sp,
             lit_ci ''Lock'', Plus sp, lit_ci ''Coupler''],
       str ''John Deere Wedge Lock Coupler''),
      (seqs [lit_ci ''Kubota'', Plus sp, lit_ci ''Wedge'', Plus sp,
             Opt (Seq (lit_ci ''Lock'') (Plus sp)), Opt (Seq (lit_ci ''Coupler'') (Plus sp)),
             lit_ci ''Style''],
       str ''Kubota Wedge Lock Coupler''),
      (seqs [lit_ci ''Bobcat'', Plus sp, lit_ci ''X'', Opt (lit_ci ''-''), lit_ci ''Change'',
             Plus sp, lit_ci ''Coupler''],
       str ''Bobcat X-Change Coupler''),
      (seqs [lit_ci ''Cat'', Opt (lit_ci ''erpillar''), Plus sp, lit_ci ''Pin'', Plus sp,
             lit_ci ''Grabber''],
       str ''Cat Pin Grabber Coupler''),
      (seqs [lit_ci ''Dual'', Plus sp, lit_ci ''Lock'', Plus sp, lit_ci ''Hydraulic'', Plus sp,
             lit_ci ''Quick'', Plus sp, lit_ci ''Coupler''],
       str ''Dual Lock Hydraulic Quick Coupler''),
      (seqs [lit_ci ''Spring'', Plus sp, lit_ci ''Manual'', Plus sp, lit_ci ''Quick'', Plus sp,
             lit_ci ''Coupler''],
       str ''Spring Manual Quick Coupler''),
      (seqs [lit_ci ''Pin'', Plus sp, lit_ci ''On'', Plus sp, lit_ci ''Style''],
       str ''Pin On Style'')]"

definition first_pattern :: "(rx \<times> ustr) list \<Rightarrow> ustr \<Rightarrow> ustr option" where
  "first_pattern ps title = map_option snd (find (\<lambda>(r, name). found r title) ps)"

definition rule_coupler_type :: "ustr \<Rightarrow> attrs \<Rightarrow> attrs" where
  "rule_coupler_type title a =
     (let a' = (case first_pattern coupler_patterns title of
                  Some coupler_name \<Rightarrow> a(str ''Coupler Type'' \<mapsto> coupler_name)
                | None \<Rightarrow> a)
      in if str ''Coupler Type'' \<notin> dom a' \<and> str ''Pin Size'' \<in> dom a'
         then a'(str ''Coupler Type'' \<mapsto> str ''Pin On'')
         else a')"

text \<open>The list \<open>type_patterns\<close>, first match wins as well.\<close>

definition type_patterns :: "(rx \<times> ustr) list" where
  "type_patterns =
     [(lit_ci ''Ditching Bucket'', str ''Ditching Bucket''),
      (lit_ci ''Digging Bucket'', str ''Digging Bucket''),
      (lit_ci ''Trenching Bucket'', str ''Trenching Bucket''),
      (lit_ci ''Banana Bucket'', str ''Banana Bucket''),
      (lit_ci ''Claw Bucket'', str ''Claw Bucket''),
      (lit_ci ''Tilt Bucket'', str ''Tilt Bucket''),
      (seqs [lit_ci ''Severe Duty '', Opt (lit_ci ''Skeleton ''), lit_ci ''Bucket''],
       str ''Severe Duty Bucket''),
      (seqs [lit_ci ''Heavy Duty '', Opt (Alt (lit_ci ''Digging '') (lit_ci ''General Purpose '')),
             lit_ci ''Bucket''],
       str ''Heavy Duty Bucket''),
      (lit_ci ''Skeleton Bucket'', str ''Skeleton Bucket''),
      (lit_ci ''4 in 1 Bucket'', str ''4 in 1 Bucket''),
      (lit_ci ''Grapple Bucket'', str ''Grapple Bucket''),
      (seqs [lit_ci ''V'', Opt (lit_ci ''-''), lit_ci ''Bottom'', Star (Chr (\<lambda>c. c \<noteq> 10)),
             lit_ci ''Bucket''],
       str ''V-Bottom Bucket''),
      (lit_ci ''Ripper Tooth'', str ''Ripper Tooth''),
      (lit_ci ''Hydraulic Hammer'', str ''Hydraulic Hammer''),
      (lit_ci ''Post Driver Hammer'', str ''Post Driver Hammer''),
      (lit_ci ''Mechanical Thumb'', str ''Mechanical Thumb''),
      (seqs [Opt (lit_ci ''QC ''), lit_ci ''Main Pin Hydraulic '', Opt (lit_ci ''Progressive ''),
             lit_ci ''Thumb''],
       str ''Hydraulic Thumb''),
      (lit_ci ''Mechanical Grapple'', str ''Mechanical Grapple''),
      (lit_ci ''Rotating Hydraulic Grapple'', str ''Rotating Grapple''),
      (lit_ci ''Hydraulic Quick Coupler'', str ''Hydraulic Quick Coupler''),
      (lit_ci ''Manual Quick Coupler'', str ''Manual Quick Coupler''),
      (lit_ci ''Brush Rake'', str ''Brush Rake''),
      (lit_ci ''Root Rake'', str ''Root Rake''),
      (lit_ci ''Bucket Rake'', str ''Bucket Rake''),
      (lit_ci ''Concrete Pulverizer'', str ''Concrete Pulverizer''),
      (lit_ci ''Hydraulic Shear'', str ''Hydraulic Shear''),
      (lit_ci ''Compaction Wheel'', str ''Compaction Wheel''),
      (lit_ci ''Plate Compactor'', str ''Plate Compactor''),
      (lit_ci ''Vibratory Roller'', str ''Vibratory Roller''),
      (lit_ci ''Pallet Fork'', str ''Pallet Fork''),
      (lit_ci ''Angle Broom'', str ''Angle Broom''),
      (lit_ci ''Sweeper Broom'', str ''Sweeper Broom''),
      (lit_ci ''Brush Cutter'', str ''Brush Cutter''),
      (seqs [lit_ci ''Auger '', Opt (lit_ci ''Drive ''), lit_ci ''Bit''], str ''Auger Bit''),
      (lit_ci ''Rock Auger Bit'', str ''Rock Auger Bit''),
      (seqs [lit_ci ''Bolt'', Opt (lit_ci ''-''), lit_ci ''On Mount''], str ''Bolt-On Mount''),
      (lit_ci ''Aux Hydraulic Piping'', str ''Aux Hydraulic Piping Kit''),
      (lit_ci ''Bucket Pin'', str ''Bucket Pin''),
      (lit_ci ''Bucket Shim'', str ''Bucket Shim''),
      (lit_ci ''Bucket Tooth'', str ''Bucket Tooth''),
      (lit_ci ''Side Cutter'', str ''Side Cutter''),
      (lit_ci ''Tooth Retainer'', str ''Tooth Retainer''),
      (lit_ci ''Tooth Adapter'', str ''Tooth Adapter''),
      (lit_ci ''Tooth Pin'', str ''Tooth Pin''),
      (lit_ci ''Trencher'', str ''Trencher'')]"

definition rule_product_type :: "ustr \<Rightarrow> attrs \<Rightarrow> attrs" where
  "rule_product_type title a =
     (case first_pattern type_patterns title of
        Some type_name \<Rightarrow> a(str ''Product Type'' \<mapsto> type_name)
      | None \<Rightarrow> a)"

text \<open>\<open>(\d+)["\u201c\u201d\u2033]\s*Hex\<close>\<close>

definition rx_hex :: "rx list" where
  "rx_hex = [Plus dg, seqs [Chr is_quote, Star sp, lit ''Hex'']]"

definition rule_hex_size :: "ustr \<Rightarrow> attrs \<Rightarrow> attrs" where
  "rule_hex_size title a =
     (case re_search rx_hex title of
        Some (g1 # gs) \<Rightarrow> a(str ''Hex Size'' \<mapsto> g1 @ [34])
      | _ \<Rightarrow> a)"

text \<open>\<open>^(\d+)\s*x\s*(\d+)\s*x\s*(\d+)\s*mm\<close>\<close>

definition rx_shim :: "rx list" where
  "rx_shim = [Plus dg, seqs [Star sp, lit ''x'', Star sp], Plus dg,
              seqs [Star sp, lit ''x'', Star sp], Plus dg, seqs [Star sp, lit ''mm'']]"

definition rule_shim :: "ustr \<Rightarrow> attrs \<Rightarrow> attrs" where
  "rule_shim title a =
     (case re_match rx_shim title of
        Some (g1 # x1 # g2 # x2 # g3 # gs) \<Rightarrow>
          a(str ''Dimensions (mm)'' \<mapsto> g1 @ str '' x '' @ g2 @ str '' x '' @ g3 @ str '' mm'')
      | _ \<Rightarrow> a)"

text \<open>\<open>with\s+(\d+)\s*mm\s+[Ll]ength\<close>\<close>

definition rx_pin_length :: "rx list" where
  "rx_pin_length = [Seq (lit ''with'') (Plus sp), Plus dg,
                    seqs [Star sp, lit ''mm'', Plus sp, Chr (\<lambda>c. c = 76 \<or> c = 108), lit ''ength'']]"

definition rule_pin_length :: "ustr \<Rightarrow> attrs \<Rightarrow> attrs" where
  "rule_pin_length title a =
     (case re_search rx_pin_length title of
        Some (pre # g1 # gs) \<Rightarrow> a(str ''Length (mm)'' \<mapsto> g1 @ str '' mm'')
      | _ \<Rightarrow> a)"

definition rule_fits_to :: "ustr \<Rightarrow> attrs \<Rightarrow> attrs" where
  "rule_fits_to title a =
     (if found (lit_ci ''Skid Steer'') title then a(str ''Fits To'' \<mapsto> str ''Skid Steer'') else a)"

definition rule_attachment_types :: "ustr \<Rightarrow> attrs \<Rightarrow> attrs" where
  "rule_attachment_types title a =
     (if found (seqs [lit_ci ''Skid'', Plus sp, lit_ci ''Steer'']) title
      then a(str ''Attachment Types'' \<mapsto> str ''Skid Steer Attachment'')
      else if found (seqs [lit_ci ''Mini'', Plus sp, lit_ci ''Excavator'']) title
      then a(str ''Attachment Types'' \<mapsto> str ''Mini Excavator Attachment'')
      else if found (lit_ci ''Excavator'') title
      then a(str ''Attachment Types'' \<mapsto> str ''Excavator Attachment'')
      else if found (lit_ci ''Backhoe'') title
      then a(str ''Attachment Types'' \<mapsto> str ''Backhoe Attachment'')
      else a)"

text \<open>
  \<open>parse_name(title, category)\<close>; \<open>category\<close> is not used. An empty title gives the empty
  dict.
\<close>

definition parse_name :: "ustr \<Rightarrow> ustr \<Rightarrow> attrs" where
  "parse_name title0 category0 =
     (if title0 = [] then Map.empty
      else
        let title = py_strip title0;
            a = rule_bucket_size title Map.empty;
            a = rule_diameter title a;
            a = rule_pin_size title a;
            a = rule_weight_class title a;
            a = rule_coupler_type title a;
            a = rule_product_type title a;
            a = rule_hex_size title a;
            a = rule_shim title a;
            a = rule_pin_length title a;
            a = rule_fits_to title a
        in rule_attachment_types title a)"

section \<open>Tables of \<open>comparator\<close>\<close>

text \<open>
  A source table (the DataFrame that a loader returns) is a list of records with the
  unified columns; \<open>price\<close> and \<open>sale_price\<close> are numbers or missing (\<open>None\<close>/NaN). A
  number is a finite Python float, kept as the rational number that it denotes. The sources are a Python dict from source name to table: an
  association list in insertion order, whose keys are distinct.

  A row of the merged table, and of the tables the detectors return, is the Python dict it
  is built from: a map from column name to value.
\<close>

record source_record =
  sku :: ustr
  product_name :: ustr
  price :: "rat option"
  sale_price :: "rat option"
  category :: ustr
  status :: ustr

type_synonym sources = "(ustr \<times> source_record list) list"

datatype val = VNone | VBool bool | VStr ustr | VNum rat

type_synonym row = "ustr \<rightharpoonup> val"

record config =
  PRICE_TOLERANCE :: rat
  PRICE_TOLERANCE_PERCENT :: rat
  FUZZY_MATCH_THRESHOLD :: int

text \<open>\<open>col ''name_'' s\<close> is the f-string \<open>f"name_{s}"\<close>.\<close>

definition col :: "string \<Rightarrow> ustr \<Rightarrow> ustr" where
  "col pre name = str pre @ name"

definition num_val :: "rat option \<Rightarrow> val" where
  "num_val x = (case x of None \<Rightarrow> VNone | Some q \<Rightarrow> VNum q)"

text \<open>Python truthiness of a cell, and \<open>row.get(key, default)\<close>.\<close>

fun truthy :: "val \<Rightarrow> bool" where
  "truthy VNone = False"
| "truthy (VBool b) = b"
| "truthy (VStr s) = (s \<noteq> [])"
| "truthy (VNum x) = (x \<noteq> 0)"

definition row_get :: "row \<Rightarrow> ustr \<Rightarrow> val \<Rightarrow> val" where
  "row_get r k d = (case r k of None \<Rightarrow> d | Some v \<Rightarrow> v)"

section \<open>\<open>comparator.merge_by_sku\<close>\<close>

definition all_skus :: "sources \<Rightarrow> ustr set" where
  "all_skus srcs =
     set (concat (map (\<lambda>(name, df). filter (\<lambda>k. length k > 0) (map sku df)) srcs))"

text \<open>The body of the inner loop: the six cells of one source in the row of \<open>k\<close>.\<close>

definition merge_cells :: "ustr \<Rightarrow> ustr \<times> source_record list \<Rightarrow> row \<Rightarrow> row" where
  "merge_cells k src r =
     (case src of (name, df) \<Rightarrow>
        (case filter (\<lambda>x. sku x = k) df of
           first # rest \<Rightarrow>
             r(col ''name_'' name \<mapsto> VStr (product_name first),
               col ''price_'' name \<mapsto> num_val (price first),
               col ''sale_price_'' name \<mapsto> num_val (sale_price first),
               col ''category_'' name \<mapsto> VStr (category first),
               col ''status_'' name \<mapsto> VStr (status first),
               col ''in_'' name \<mapsto> VBool True)
         | [] \<Rightarrow>
             r(col ''name_'' name \<mapsto> VNone,
               col ''price_'' name \<mapsto> VNone,
               col ''sale_price_'' name \<mapsto> VNone,
               col ''category_'' name \<mapsto> VNone,
               col ''status_'' name \<mapsto> VNone,
               col ''in_'' name \<mapsto> VBool False)))"

definition merge_row :: "sources \<Rightarrow> ustr \<Rightarrow> row" where
  "merge_row srcs k = fold (merge_cells k) srcs [str ''sku'' \<mapsto> VStr k]"

definition merge_by_sku :: "sources \<Rightarrow> row list" where
  "merge_by_sku srcs =
     (if srcs = [] then []
      else map (merge_row srcs) (sorted_list_of_set (all_skus srcs)))"

section \<open>\<open>comparator.find_price_differences\<close>\<close>

subsection \<open>Python floats\<close>

text \<open>
  A Python float is an IEEE 754 binary64 number. \<open>fl x\<close> is the double nearest to the
  rational \<open>x\<close>, a tie going to the even significand: it is what a decimal literal such
  as \<open>0.01\<close> denotes and what the result of every arithmetic operation is rounded to.
  The significand has 53 bits and the exponent of the last bit is at least -1074 (the
  subnormal range); values beyond the largest double are outside the model. Comparisons
  of floats are exact.
\<close>

definition pow2 :: "int \<Rightarrow> rat" where
  "pow2 e = (if 0 \<le> e then 2 ^ nat e else 1 / 2 ^ nat (- e))"

text \<open>The binary exponent of \<open>x\<close>: \<open>exp_up\<close> for \<open>1 \<le> x\<close>, \<open>exp_down\<close> for \<open>0 < x < 1\<close>.\<close>

function exp_up :: "rat \<Rightarrow> int" where
  "exp_up x = (if 2 \<le> x then exp_up (x / 2) + 1 else 0)"
  by pat_completeness auto
termination
proof (relation "measure (\<lambda>x. nat \<lceil>x\<rceil>)")
  fix x :: rat
  assume x: "2 \<le> x"
  then have "x / 2 \<le> x - 1" by simp
  then have "\<lceil>x / 2\<rceil> \<le> \<lceil>x - 1\<rceil>" by (rule ceiling_mono)
  also have "\<dots> = \<lceil>x\<rceil> - 1" by simp
  finally have "\<lceil>x / 2\<rceil> < \<lceil>x\<rceil>" by simp
  moreover from x have "0 < \<lceil>x\<rceil>" by simp
  ultimately show "(x / 2, x) \<in> measure (\<lambda>x. nat \<lceil>x\<rceil>)" by simp
qed simp

function exp_down :: "rat \<Rightarrow> int" where
  "exp_down x = (if 0 < x \<and> x < 1 then exp_down (x * 2) - 1 else 0)"
  by pat_completeness auto
termination
proof (relation "measure (\<lambda>x. nat \<lceil>1 / x\<rceil>)")
  fix x :: rat
  assume x: "0 < x \<and> x < 1"
  then have one: "1 < 1 / x" by simp
  have "\<lceil>1 / (x * 2)\<rceil> < \<lceil>1 / x\<rceil>"
  proof (cases "2 \<le> 1 / x")
    case True
    then have "1 / (x * 2) \<le> 1 / x - 1" by (simp add: field_simps)
    then have "\<lceil>1 / (x * 2)\<rceil> \<le> \<lceil>1 / x - 1\<rceil>" by (rule ceiling_mono)
    then show ?thesis by simp
  next
    case False
    with one x have "1 / (x * 2) \<le> 1" by (simp add: field_simps)
    then have "\<lceil>1 / (x * 2)\<rceil> \<le> \<lceil>1 :: rat\<rceil>" by (rule ceiling_mono)
    then have a: "\<lceil>1 / (x * 2)\<rceil> \<le> 1" by simp
    from one have "1 < \<lceil>1 / x\<rceil>" by (simp add: less_ceiling_iff)
    with a show ?thesis by linarith
  qed
  moreover have "0 < \<lceil>1 / x\<rceil>"
  proof -
    from one have "(0::rat) < 1 / x" by linarith
    then show ?thesis by (simp only: zero_less_ceiling)
  qed
  ultimately show "(x * 2, x) \<in> measure (\<lambda>x. nat \<lceil>1 / x\<rceil>)" by simp
qed simp

declare exp_up.simps [simp del] exp_down.simps [simp del]

definition round_half_even :: "rat \<Rightarrow> int" where
  "round_half_even y =
     (let f = \<lfloor>y\<rfloor>; d = y - of_int f
      in if d < 1 / 2 then f else if 1 / 2 < d then f + 1 else if even f then f else f + 1)"

definition fl :: "rat \<Rightarrow> rat" where
  "fl x =
     (if x = 0 then 0
      else
        let e = max (if 1 \<le> \<bar>x\<bar> then exp_up \<bar>x\<bar> else exp_down \<bar>x\<bar>) (- 1022);
            q = pow2 (e - 52)
        in of_int (round_half_even (x / q)) * q)"

text \<open>The float operations \<open>a - b\<close>, \<open>a * b\<close> and \<open>a / b\<close> (for \<open>b\<close> other than 0).\<close>

definition f_sub :: "rat \<Rightarrow> rat \<Rightarrow> rat" where
  "f_sub a b = fl (a - b)"

definition f_mul :: "rat \<Rightarrow> rat \<Rightarrow> rat" where
  "f_mul a b = fl (a * b)"

definition f_div :: "rat \<Rightarrow> rat \<Rightarrow> rat" where
  "f_div a b = fl (a / b)"

text \<open>
  \<open>round(x, 2)\<close> on a float: the value of \<open>x\<close> is rounded to the nearest hundredth, a tie
  going to the even one, and the result is the double nearest to that decimal.
\<close>

definition float_round2 :: "rat \<Rightarrow> rat" where
  "float_round2 x = fl (of_int (round_half_even (x * 100)) / 100)"

subsection \<open>The detector\<close>

text \<open>
  The dict \<open>prices\<close>: the sources whose \<open>in_\<close> flag is true and whose price is not
  missing, with that price. A price cell holds a number or \<open>None\<close>.
\<close>

definition present_price :: "row \<Rightarrow> ustr \<Rightarrow> (ustr \<times> rat) option" where
  "present_price r s =
     (if truthy (row_get r (col ''in_'' s) (VBool False))
      then (case row_get r (col ''price_'' s) VNone of VNum x \<Rightarrow> Some (s, x) | _ \<Rightarrow> None)
      else None)"

definition first_name :: "row \<Rightarrow> ustr list \<Rightarrow> val" where
  "first_name r source_names =
     (case filter (\<lambda>s. truthy (row_get r (col ''name_'' s) VNone)) source_names of
        [] \<Rightarrow> VStr []
      | s # rest \<Rightarrow> row_get r (col ''name_'' s) VNone)"

definition list_max :: "rat list \<Rightarrow> rat" where
  "list_max xs = fold max (tl xs) (hd xs)"

definition list_min :: "rat list \<Rightarrow> rat" where
  "list_min xs = fold min (tl xs) (hd xs)"

text \<open>The body of the loop over the merged rows: the row to emit, if any.\<close>

definition price_diff_row :: "config \<Rightarrow> ustr list \<Rightarrow> row \<Rightarrow> row option" where
  "price_diff_row cfg source_names r =
     (let prices = List.map_filter (present_price r) source_names
      in if length prices < 2 then None
         else
           let price_values = map snd prices;
               max_price = list_max price_values;
               min_price = list_min price_values;
               abs_diff = f_sub max_price min_price
           in if abs_diff \<le> PRICE_TOLERANCE cfg then None
              else if PRICE_TOLERANCE_PERCENT cfg > 0 \<and> min_price > 0
                      \<and> f_mul (f_div abs_diff min_price) 100 \<le> PRICE_TOLERANCE_PERCENT cfg
                then None
              else Some (fold (\<lambda>s d. d(col ''price_'' s \<mapsto> num_val (map_of prices s)))
                           source_names
                           [str ''sku'' \<mapsto> row_get r (str ''sku'') VNone,
                            str ''product_name'' \<mapsto> first_name r source_names,
                            str ''price_diff'' \<mapsto> VNum (float_round2 abs_diff)]))"

definition find_price_differences :: "config \<Rightarrow> row list \<Rightarrow> sources \<Rightarrow> row list" where
  "find_price_differences cfg merged srcs =
     List.map_filter (price_diff_row cfg (map fst srcs)) merged"

section \<open>\<open>comparator.find_name_differences\<close>\<close>






section \<open>\<open>comparator._parse_weight\<close>, \<open>_parse_dimensions\<close> and \<open>find_attribute_differences\<close>\<close>

text \<open>
  A raw attribute cache (\<open>_load_zoho_raw_attrs\<close> and its two siblings) is a dict from
  sku to a dict from field name to text; a field whose value is \<open>None\<close> or NaN is a field
  without text. The argument of \<open>_parse_weight\<close> is that optional text, and its result the
  optional number. Weights and dimensions are kept as exact rationals.
\<close>

type_synonym attr_cache = "ustr \<rightharpoonup> (ustr \<rightharpoonup> ustr)"

text \<open>
  \<open>round(x, 2)\<close> on an exact value: the nearest hundredth, a tie going to the even one.
\<close>

definition py_round2 :: "rat \<Rightarrow> rat" where
  "py_round2 x =
     (let y = x * 100; f = \<lfloor>y\<rfloor>; d = y - of_int f
      in of_int (if d < 1 / 2 then f
                 else if 1 / 2 < d then f + 1
                 else if even f then f else f + 1) / 100)"


definition parse_weight :: "ustr option \<Rightarrow> rat option" where
  "parse_weight val =
     (case val of
        None \<Rightarrow> None
      | Some v \<Rightarrow>
          if v = [] then None
          else
            let s = py_replace [44] [] (py_lower (py_strip v))
            in case findall_nums s of
                 [] \<Rightarrow> None
               | m # rest \<Rightarrow>
                   (case py_float m of
                      None \<Rightarrow> None
                    | Some w \<Rightarrow>
                        Some (py_round2 (if py_in (str ''kg'') s
                                         then py_round2 (w * (220462 / 100000)) else w))))"

definition parse_dimensions :: "ustr option \<Rightarrow> (rat \<times> rat \<times> rat) option" where
  "parse_dimensions val =
     (case val of
        None \<Rightarrow> None
      | Some v \<Rightarrow>
          if v = [] then None
          else
            let s = py_replace [39] [] (py_replace [34] [] (py_lower (py_strip v)))
            in case findall_nums s of
                 a # b # c # rest \<Rightarrow>
                   (case (py_float a, py_float b, py_float c) of
                      (Some x, Some y, Some z) \<Rightarrow> Some (py_round2 x, py_round2 y, py_round2 z)
                    | _ \<Rightarrow> None)
               | _ \<Rightarrow> None)"

text \<open>One entry of the list \<open>diffs\<close>.\<close>

record attr_diff =
  attribute :: ustr
  vals :: "(ustr \<times> rat) list"
  diff :: rat

text \<open>
  \<open>weight_of present name attrs k field\<close> is one of the \<open>if name in present and sku in
  attrs\<close> blocks: the entry that the block adds to the dict of weights, if it adds one.
  The test \<open>if w:\<close> drops \<open>None\<close> and drops the number 0.
\<close>

definition weight_of ::
  "ustr list \<Rightarrow> ustr \<Rightarrow> attr_cache \<Rightarrow> ustr \<Rightarrow> ustr \<Rightarrow> (ustr \<times> rat) list" where
  "weight_of present name attrs k field =
     (if name \<in> set present then
        (case attrs k of
           None \<Rightarrow> []
         | Some fs \<Rightarrow>
             (case parse_weight (fs field) of
                None \<Rightarrow> []
              | Some w \<Rightarrow> if w \<noteq> 0 then [(name, w)] else []))
      else [])"

definition dims_of ::
  "ustr list \<Rightarrow> ustr \<Rightarrow> attr_cache \<Rightarrow> ustr \<Rightarrow> (ustr \<times> rat \<times> rat \<times> rat) list" where
  "dims_of present name attrs k =
     (if name \<in> set present then
        (case attrs k of
           None \<Rightarrow> []
         | Some fs \<Rightarrow>
             (case parse_dimensions (fs (str ''dimensions'')) of
                None \<Rightarrow> []
              | Some d \<Rightarrow> [(name, d)]))
      else [])"

text \<open>
  The test on one dict of values: with two values or more whose spread is above 0.5, one
  entry of \<open>diffs\<close>.
\<close>

definition spread_diff :: "ustr \<Rightarrow> (ustr \<times> rat) list \<Rightarrow> attr_diff list" where
  "spread_diff label vs =
     (if length vs \<ge> 2 then
        (let v = map snd vs
         in if list_max v - list_min v > 1 / 2
            then [\<lparr>attribute = label, vals = vs, diff = py_round2 (list_max v - list_min v)\<rparr>]
            else [])
      else [])"

definition weight_diffs ::
  "ustr list \<Rightarrow> attr_cache \<Rightarrow> attr_cache \<Rightarrow> attr_cache \<Rightarrow> ustr \<Rightarrow> attr_diff list" where
  "weight_diffs present zoho_attrs web_attrs google_attrs k =
     (let weights = weight_of present (str ''zoho'') zoho_attrs k (str ''weight'')
                  @ weight_of present (str ''website'') web_attrs k (str ''weight'')
                  @ weight_of present (str ''google'') google_attrs k (str ''weight_lb'')
      in spread_diff (str ''Weight (lb)'') weights)"

definition shipping_weight_diffs ::
  "ustr list \<Rightarrow> attr_cache \<Rightarrow> attr_cache \<Rightarrow> ustr \<Rightarrow> attr_diff list" where
  "shipping_weight_diffs present zoho_attrs google_attrs k =
     (let ship_weights = weight_of present (str ''zoho'') zoho_attrs k (str ''shipping_weight'')
                       @ weight_of present (str ''google'') google_attrs k (str ''shipping_weight_lb'')
      in spread_diff (str ''Shipping Weight (lb)'') ship_weights)"

definition dimension_diffs ::
  "ustr list \<Rightarrow> attr_cache \<Rightarrow> attr_cache \<Rightarrow> ustr \<Rightarrow> attr_diff list" where
  "dimension_diffs present zoho_attrs google_attrs k =
     (let dims = dims_of present (str ''zoho'') zoho_attrs k
               @ dims_of present (str ''google'') google_attrs k
      in if length dims \<ge> 2 then
           spread_diff (str ''Shipping Length (in)'') (map (\<lambda>(s, l, w, h). (s, l)) dims)
         @ spread_diff (str ''Shipping Width (in)'') (map (\<lambda>(s, l, w, h). (s, w)) dims)
         @ spread_diff (str ''Shipping Height (in)'') (map (\<lambda>(s, l, w, h). (s, h)) dims)
         else [])"

text \<open>The body of the loop over the merged rows: the rows it appends to \<open>diff_rows\<close>.\<close>

definition attribute_diff_rows ::
  "ustr list \<Rightarrow> attr_cache \<Rightarrow> attr_cache \<Rightarrow> attr_cache \<Rightarrow> row \<Rightarrow> row list" where
  "attribute_diff_rows source_names zoho_attrs web_attrs google_attrs r =
     (case row_get r (str ''sku'') VNone of
        VStr k \<Rightarrow>
          (let present = filter (\<lambda>s. truthy (row_get r (col ''in_'' s) (VBool False))) source_names
           in if length present < 2 then []
              else
                let diffs = weight_diffs present zoho_attrs web_attrs google_attrs k
                          @ shipping_weight_diffs present zoho_attrs google_attrs k
                          @ dimension_diffs present zoho_attrs google_attrs k;
                    name = (case filter (\<lambda>s. truthy (row_get r (col ''name_'' s) VNone)) present of
                              [] \<Rightarrow> VStr []
                            | s # rest \<Rightarrow> row_get r (col ''name_'' s) VNone)
                in map (\<lambda>d. fold (\<lambda>s out. out(col ''value_'' s \<mapsto>
                                      (case map_of (vals d) s of
                                         None \<Rightarrow> VStr [] | Some x \<Rightarrow> VNum x)))
                                source_names
                                [str ''sku'' \<mapsto> VStr k,
                                 str ''product_name'' \<mapsto> name,
                                 str ''attribute'' \<mapsto> VStr (attribute d),
                                 str ''diff'' \<mapsto> VNum (diff d)])
                     diffs)
      | _ \<Rightarrow> [])"

definition find_attribute_differences ::
  "attr_cache \<Rightarrow> attr_cache \<Rightarrow> attr_cache \<Rightarrow> row list \<Rightarrow> sources \<Rightarrow> row list" where
  "find_attribute_differences zoho_attrs web_attrs google_attrs merged srcs =
     concat (map (attribute_diff_rows (map fst srcs) zoho_attrs web_attrs google_attrs) merged)"

section \<open>\<open>grid_view\<close>: the status of a cell of the attribute grid\<close>




section \<open>Example inputs and auxiliary notions\<close>

definition cell_prefixes :: "string set" where
  "cell_prefixes = {''name_'', ''price_'', ''sale_price_'', ''category_'', ''status_'', ''in_''}"

definition ex_sources :: sources where
  "ex_sources =
     [(str ''zoho'',
        [\<lparr>sku = str ''B2'', product_name = str ''Bucket'', price = Some 100, sale_price = None,
           category = str ''Buckets'', status = str ''active''\<rparr>,
         \<lparr>sku = [], product_name = str ''No key'', price = None, sale_price = None,
           category = [], status = []\<rparr>,
         \<lparr>sku = str ''A1'', product_name = str ''Pin'', price = Some 5, sale_price = Some 4,
           category = str ''Pins'', status = str ''active''\<rparr>,
         \<lparr>sku = str ''A1'', product_name = str ''Pin again'', price = Some 6, sale_price = None,
           category = str ''Pins'', status = str ''active''\<rparr>]),
      (str ''website'',
        [\<lparr>sku = str ''A1'', product_name = str ''Pin 45mm'', price = None, sale_price = None,
           category = str ''Pins'', status = []\<rparr>])]"





text \<open>
  The number that \<open>_parse_weight\<close> returns for a source that takes part in the weight
  comparison of the product \<open>k\<close>; \<open>None\<close> when the source is not compared or its text has
  no number.
\<close>

definition parsed_weight ::
  "ustr list \<Rightarrow> ustr \<Rightarrow> attr_cache \<Rightarrow> ustr \<Rightarrow> ustr \<Rightarrow> rat option" where
  "parsed_weight present name attrs k field =
     (if name \<in> set present
      then (case attrs k of None \<Rightarrow> None | Some fs \<Rightarrow> parse_weight (fs field))
      else None)"

definition ex_weight_row :: row where
  "ex_weight_row =
     [str ''sku'' \<mapsto> VStr (str ''SKU-100''),
      col ''in_'' (str ''zoho'') \<mapsto> VBool True, col ''name_'' (str ''zoho'') \<mapsto> VStr (str ''Bucket''),
      col ''in_'' (str ''website'') \<mapsto> VBool True, col ''name_'' (str ''website'') \<mapsto> VStr (str ''Bucket'')]"

definition ex_zoho_attrs :: attr_cache where
  "ex_zoho_attrs = [str ''SKU-100'' \<mapsto> [str ''weight'' \<mapsto> str ''0 lb'']]"

definition ex_web_attrs :: attr_cache where
  "ex_web_attrs = [str ''SKU-100'' \<mapsto> [str ''weight'' \<mapsto> str ''170.23 lb'']]"

text \<open>
  The language of a pattern, to say what a match of the backtracking matcher has read.
\<close>

inductive_set star :: "ustr set \<Rightarrow> ustr set" for A :: "ustr set" where
  star_empty: "[] \<in> star A"
| star_step: "a \<in> A \<Longrightarrow> w \<in> star A \<Longrightarrow> a @ w \<in> star A"

fun lang :: "rx \<Rightarrow> ustr set" where
  "lang (Chr P) = {[c] |c. P c}"
| "lang Eps = {[]}"
| "lang (Seq a b) = {u @ v |u v. u \<in> lang a \<and> v \<in> lang b}"
| "lang (Alt a b) = lang a \<union> lang b"
| "lang (Star a) = star (lang a)"

text \<open>
  The leading numeric token of a title: its leading digits, with a dot and further digits
  when they follow; empty when the title does not start with a digit.
\<close>

definition leading_number :: "ustr \<Rightarrow> ustr" where
  "leading_number t =
     (let ip = takeWhile is_digit t; r = dropWhile is_digit t
      in if ip = [] then []
         else (case r of
                 [] \<Rightarrow> ip
               | c # r' \<Rightarrow>
                   if c = 46 \<and> takeWhile is_digit r' \<noteq> []
                   then ip @ [46] @ takeWhile is_digit r' else ip))"







section \<open>Properties of \<open>merge_by_sku\<close>\<close>

lemma col_inject [simp]: "col p n = col p n' \<longleftrightarrow> n = n'"
  by (simp add: col_def)

lemma col_distinct [simp]:
  "col ''in_'' n \<noteq> col ''name_'' m" "col ''in_'' n \<noteq> col ''price_'' m"
  "col ''in_'' n \<noteq> col ''sale_price_'' m" "col ''in_'' n \<noteq> col ''category_'' m"
  "col ''in_'' n \<noteq> col ''status_'' m"
  "col ''name_'' n \<noteq> col ''in_'' m" "col ''name_'' n \<noteq> col ''price_'' m"
  "col ''name_'' n \<noteq> col ''sale_price_'' m" "col ''name_'' n \<noteq> col ''category_'' m"
  "col ''name_'' n \<noteq> col ''status_'' m"
  "col ''price_'' n \<noteq> col ''in_'' m" "col ''price_'' n \<noteq> col ''name_'' m"
  "col ''price_'' n \<noteq> col ''sale_price_'' m" "col ''price_'' n \<noteq> col ''category_'' m"
  "col ''price_'' n \<noteq> col ''status_'' m"
  "col ''sale_price_'' n \<noteq> col ''in_'' m" "col ''sale_price_'' n \<noteq> col ''name_'' m"
  "col ''sale_price_'' n \<noteq> col ''price_'' m" "col ''sale_price_'' n \<noteq> col ''category_'' m"
  "col ''sale_price_'' n \<noteq> col ''status_'' m"
  "col ''category_'' n \<noteq> col ''in_'' m" "col ''category_'' n \<noteq> col ''name_'' m"
  "col ''category_'' n \<noteq> col ''price_'' m" "col ''category_'' n \<noteq> col ''sale_price_'' m"
  "col ''category_'' n \<noteq> col ''status_'' m"
  "col ''status_'' n \<noteq> col ''in_'' m" "col ''status_'' n \<noteq> col ''name_'' m"
  "col ''status_'' n \<noteq> col ''price_'' m" "col ''status_'' n \<noteq> col ''sale_price_'' m"
  "col ''status_'' n \<noteq> col ''category_'' m"
  by (simp_all add: col_def str_def)

lemma col_not_sku [simp]:
  "col ''in_'' n \<noteq> str ''sku''" "col ''name_'' n \<noteq> str ''sku''"
  "col ''price_'' n \<noteq> str ''sku''" "col ''sale_price_'' n \<noteq> str ''sku''"
  "col ''category_'' n \<noteq> str ''sku''" "col ''status_'' n \<noteq> str ''sku''"
  by (simp_all add: col_def str_def)

lemma merge_cells_other:
  assumes "p \<in> cell_prefixes" "fst src \<noteq> S"
  shows "merge_cells k src r (col p S) = r (col p S)"
  using assms by (cases src) (auto simp: merge_cells_def cell_prefixes_def split: list.splits)

lemma merge_cells_sku: "merge_cells k src r (str ''sku'') = r (str ''sku'')"
  using col_not_sku [symmetric]
  by (cases src) (simp add: merge_cells_def split: list.splits)

lemma fold_merge_cells_other:
  assumes "p \<in> cell_prefixes" "S \<notin> fst ` set srcs"
  shows "fold (merge_cells k) srcs r (col p S) = r (col p S)"
  using assms by (induction srcs arbitrary: r) (auto simp: merge_cells_other)

lemma fold_merge_cells_sku: "fold (merge_cells k) srcs r (str ''sku'') = r (str ''sku'')"
  by (induction srcs arbitrary: r) (simp_all add: merge_cells_sku)

lemma fold_merge_cells_at:
  assumes "p \<in> cell_prefixes" "distinct (map fst srcs)" "(S, df) \<in> set srcs"
  shows "fold (merge_cells k) srcs r (col p S) = merge_cells k (S, df) r' (col p S)"
  using assms
proof (induction srcs arbitrary: r)
  case Nil
  then show ?case by simp
next
  case (Cons x xs)
  show ?case
  proof (cases "x = (S, df)")
    case True
    with Cons.prems have "S \<notin> fst ` set xs" by auto
    then have "fold (merge_cells k) xs (merge_cells k x r) (col p S) = merge_cells k x r (col p S)"
      using Cons.prems(1) by (rule fold_merge_cells_other [rotated])
    moreover have "merge_cells k (S, df) r (col p S) = merge_cells k (S, df) r' (col p S)"
      using Cons.prems(1) by (auto simp: merge_cells_def cell_prefixes_def split: list.splits)
    ultimately show ?thesis using True by simp
  next
    case False
    with Cons.prems have "(S, df) \<in> set xs" "distinct (map fst xs)" by auto
    then show ?thesis using Cons.IH [OF Cons.prems(1)] by simp
  qed
qed

lemma case_filter_find:
  "(case filter P xs of [] \<Rightarrow> a | x # rest \<Rightarrow> f x) = (case find P xs of None \<Rightarrow> a | Some x \<Rightarrow> f x)"
  by (induction xs) auto

lemma merge_cells_find:
  "merge_cells k (S, df) r (col ''in_'' S) = Some (VBool (find (\<lambda>x. sku x = k) df \<noteq> None))"
  "merge_cells k (S, df) r (col ''name_'' S) =
     Some (case find (\<lambda>x. sku x = k) df of None \<Rightarrow> VNone | Some x \<Rightarrow> VStr (product_name x))"
  "merge_cells k (S, df) r (col ''price_'' S) =
     Some (case find (\<lambda>x. sku x = k) df of None \<Rightarrow> VNone | Some x \<Rightarrow> num_val (price x))"
  "merge_cells k (S, df) r (col ''sale_price_'' S) =
     Some (case find (\<lambda>x. sku x = k) df of None \<Rightarrow> VNone | Some x \<Rightarrow> num_val (sale_price x))"
  "merge_cells k (S, df) r (col ''category_'' S) =
     Some (case find (\<lambda>x. sku x = k) df of None \<Rightarrow> VNone | Some x \<Rightarrow> VStr (category x))"
  "merge_cells k (S, df) r (col ''status_'' S) =
     Some (case find (\<lambda>x. sku x = k) df of None \<Rightarrow> VNone | Some x \<Rightarrow> VStr (status x))"
  by (simp_all add: merge_cells_def case_filter_find split: option.splits)

lemma all_skus_eq:
  "all_skus srcs = {k. k \<noteq> [] \<and> (\<exists>(n, df)\<in>set srcs. \<exists>x\<in>set df. sku x = k)}"
  by (auto simp: all_skus_def)

lemma merge_by_sku_eq:
  "merge_by_sku srcs = map (merge_row srcs) (sorted_list_of_set (all_skus srcs))"
  by (simp add: merge_by_sku_def all_skus_def)

lemma merge_by_sku_sort:
  "merge_by_sku srcs =
     map (merge_row srcs)
       (sort (remdups (concat (map (\<lambda>(name, df). filter (\<lambda>k. length k > 0) (map sku df)) srcs))))"
  by (simp only: merge_by_sku_eq all_skus_def sorted_list_of_set_sort_remdups)

lemma merge_row_sku: "merge_row srcs k (str ''sku'') = Some (VStr k)"
  by (simp add: merge_row_def fold_merge_cells_sku)

lemma merge_row_cell:
  assumes "p \<in> cell_prefixes" "distinct (map fst srcs)" "(S, df) \<in> set srcs"
  shows "merge_row srcs k (col p S) = merge_cells k (S, df) Map.empty (col p S)"
  unfolding merge_row_def using assms by (rule fold_merge_cells_at)

theorem merge_by_sku_rows:
  assumes "distinct (map fst srcs)"
  shows "\<exists>ks. map (\<lambda>r. r (str ''sku'')) (merge_by_sku srcs) = map (\<lambda>k. Some (VStr k)) ks
      \<and> distinct ks \<and> sorted ks
      \<and> set ks = {k. k \<noteq> [] \<and> (\<exists>(n, df)\<in>set srcs. \<exists>x\<in>set df. sku x = k)}
      \<and> (\<forall>i<length ks. \<forall>(S, df)\<in>set srcs.
            let r = merge_by_sku srcs ! i; hit = find (\<lambda>x. sku x = ks ! i) df
            in r (col ''in_'' S) = Some (VBool (\<exists>x\<in>set df. sku x = ks ! i))
             \<and> r (col ''name_'' S) = Some (case hit of None \<Rightarrow> VNone | Some x \<Rightarrow> VStr (product_name x))
             \<and> r (col ''price_'' S) = Some (case hit of None \<Rightarrow> VNone | Some x \<Rightarrow> num_val (price x))
             \<and> r (col ''sale_price_'' S) = Some (case hit of None \<Rightarrow> VNone | Some x \<Rightarrow> num_val (sale_price x))
             \<and> r (col ''category_'' S) = Some (case hit of None \<Rightarrow> VNone | Some x \<Rightarrow> VStr (category x))
             \<and> r (col ''status_'' S) = Some (case hit of None \<Rightarrow> VNone | Some x \<Rightarrow> VStr (status x)))"
proof -
  define ks where "ks = sorted_list_of_set (all_skus srcs)"
  have fin: "finite (all_skus srcs)"
    unfolding all_skus_def by (rule finite_set)
  have rows: "merge_by_sku srcs = map (merge_row srcs) ks"
    by (simp add: merge_by_sku_eq ks_def)
  have "map (\<lambda>r. r (str ''sku'')) (merge_by_sku srcs) = map (\<lambda>k. Some (VStr k)) ks"
    by (simp add: rows merge_row_sku)
  moreover have "distinct ks" "sorted ks"
    by (simp_all add: ks_def)
  moreover have "set ks = {k. k \<noteq> [] \<and> (\<exists>(n, df)\<in>set srcs. \<exists>x\<in>set df. sku x = k)}"
    using fin by (simp add: ks_def all_skus_eq)
  moreover have "\<forall>i<length ks. \<forall>(S, df)\<in>set srcs.
            let r = merge_by_sku srcs ! i; hit = find (\<lambda>x. sku x = ks ! i) df
            in r (col ''in_'' S) = Some (VBool (\<exists>x\<in>set df. sku x = ks ! i))
             \<and> r (col ''name_'' S) = Some (case hit of None \<Rightarrow> VNone | Some x \<Rightarrow> VStr (product_name x))
             \<and> r (col ''price_'' S) = Some (case hit of None \<Rightarrow> VNone | Some x \<Rightarrow> num_val (price x))
             \<and> r (col ''sale_price_'' S) = Some (case hit of None \<Rightarrow> VNone | Some x \<Rightarrow> num_val (sale_price x))
             \<and> r (col ''category_'' S) = Some (case hit of None \<Rightarrow> VNone | Some x \<Rightarrow> VStr (category x))
             \<and> r (col ''status_'' S) = Some (case hit of None \<Rightarrow> VNone | Some x \<Rightarrow> VStr (status x))"
  proof (intro allI impI ballI, clarify)
    fix i S df
    assume i: "i < length ks" and mem: "(S, df) \<in> set srcs"
    have r: "merge_by_sku srcs ! i = merge_row srcs (ks ! i)"
      using i by (simp add: rows)
    have cell: "\<And>p. p \<in> cell_prefixes \<Longrightarrow>
        merge_row srcs (ks ! i) (col p S) = merge_cells (ks ! i) (S, df) Map.empty (col p S)"
      using assms mem by (rule merge_row_cell [rotated])
    have found: "(find (\<lambda>x. sku x = ks ! i) df \<noteq> None) = (\<exists>x\<in>set df. sku x = ks ! i)"
      by (auto simp: find_None_iff)
    show "let r = merge_by_sku srcs ! i; hit = find (\<lambda>x. sku x = ks ! i) df
            in r (col ''in_'' S) = Some (VBool (\<exists>x\<in>set df. sku x = ks ! i))
             \<and> r (col ''name_'' S) = Some (case hit of None \<Rightarrow> VNone | Some x \<Rightarrow> VStr (product_name x))
             \<and> r (col ''price_'' S) = Some (case hit of None \<Rightarrow> VNone | Some x \<Rightarrow> num_val (price x))
             \<and> r (col ''sale_price_'' S) = Some (case hit of None \<Rightarrow> VNone | Some x \<Rightarrow> num_val (sale_price x))
             \<and> r (col ''category_'' S) = Some (case hit of None \<Rightarrow> VNone | Some x \<Rightarrow> VStr (category x))
             \<and> r (col ''status_'' S) = Some (case hit of None \<Rightarrow> VNone | Some x \<Rightarrow> VStr (status x))"
      unfolding Let_def r
      by (simp add: cell cell_prefixes_def merge_cells_find found del: not_None_eq)
  qed
  ultimately show ?thesis by blast
qed

lemma ex_sources_keys:
  "sort (remdups (concat (map (\<lambda>(name, df). filter (\<lambda>k. length k > 0) (map sku df)) ex_sources)))
     = [str ''A1'', str ''B2'']"
  by (simp add: ex_sources_def str_def)

lemma ex_sources_merged:
  "merge_by_sku ex_sources = [merge_row ex_sources (str ''A1''), merge_row ex_sources (str ''B2'')]"
  by (simp only: merge_by_sku_sort ex_sources_keys list.map)

lemma ex_sources_distinct: "distinct (map fst ex_sources)"
  by (simp add: ex_sources_def str_def)

theorem merge_by_sku_rows_witness:
  "map (\<lambda>r. r (str ''sku'')) (merge_by_sku ex_sources) = [Some (VStr (str ''A1'')), Some (VStr (str ''B2''))]
   \<and> (merge_by_sku ex_sources ! 0) (col ''in_'' (str ''website'')) = Some (VBool True)
   \<and> (merge_by_sku ex_sources ! 1) (col ''in_'' (str ''website'')) = Some (VBool False)
   \<and> (merge_by_sku ex_sources ! 0) (col ''name_'' (str ''zoho'')) = Some (VStr (str ''Pin''))
   \<and> (merge_by_sku ex_sources ! 1) (col ''price_'' (str ''website'')) = Some VNone"
proof -
  obtain ks where sk: "map (\<lambda>r. r (str ''sku'')) (merge_by_sku ex_sources) = map (\<lambda>k. Some (VStr k)) ks"
    and cells: "\<forall>i<length ks. \<forall>(S, df)\<in>set ex_sources.
            let r = merge_by_sku ex_sources ! i; hit = find (\<lambda>x. sku x = ks ! i) df
            in r (col ''in_'' S) = Some (VBool (\<exists>x\<in>set df. sku x = ks ! i))
             \<and> r (col ''name_'' S) = Some (case hit of None \<Rightarrow> VNone | Some x \<Rightarrow> VStr (product_name x))
             \<and> r (col ''price_'' S) = Some (case hit of None \<Rightarrow> VNone | Some x \<Rightarrow> num_val (price x))
             \<and> r (col ''sale_price_'' S) = Some (case hit of None \<Rightarrow> VNone | Some x \<Rightarrow> num_val (sale_price x))
             \<and> r (col ''category_'' S) = Some (case hit of None \<Rightarrow> VNone | Some x \<Rightarrow> VStr (category x))
             \<and> r (col ''status_'' S) = Some (case hit of None \<Rightarrow> VNone | Some x \<Rightarrow> VStr (status x))"
    using merge_by_sku_rows [OF ex_sources_distinct] by blast
  have "map (\<lambda>r. r (str ''sku'')) (merge_by_sku ex_sources) = [Some (VStr (str ''A1'')), Some (VStr (str ''B2''))]"
    by (simp add: ex_sources_merged merge_row_sku)
  with sk have ks: "ks = [str ''A1'', str ''B2'']"
    by (auto simp: map_eq_Cons_conv)
  have web: "(str ''website'', snd (ex_sources ! 1)) \<in> set ex_sources"
    and zoho: "(str ''zoho'', snd (ex_sources ! 0)) \<in> set ex_sources"
    by (simp_all add: ex_sources_def)
  have "(merge_by_sku ex_sources ! 0) (col ''in_'' (str ''website'')) = Some (VBool True)"
    "(merge_by_sku ex_sources ! 1) (col ''in_'' (str ''website'')) = Some (VBool False)"
    "(merge_by_sku ex_sources ! 1) (col ''price_'' (str ''website'')) = Some VNone"
    using cells [rule_format, of 0, OF _ web] cells [rule_format, of 1, OF _ web]
    by (simp_all add: ks Let_def ex_sources_def str_def)
  moreover have "(merge_by_sku ex_sources ! 0) (col ''name_'' (str ''zoho'')) = Some (VStr (str ''Pin''))"
    using cells [rule_format, of 0, OF _ zoho]
    by (simp add: ks Let_def ex_sources_def str_def)
  ultimately show ?thesis
    using \<open>map (\<lambda>r. r (str ''sku'')) (merge_by_sku ex_sources) = [Some (VStr (str ''A1'')), Some (VStr (str ''B2''))]\<close>
    by simp
qed

section \<open>Properties of \<open>find_price_differences\<close>\<close>





lemma list_max_Max: "xs \<noteq> [] \<Longrightarrow> list_max xs = Max (set xs)"
proof (cases xs)
  case (Cons a list)
  then show ?thesis
    using Max.set_eq_fold [of a list] by (simp add: list_max_def)
qed simp

lemma list_min_Min: "xs \<noteq> [] \<Longrightarrow> list_min xs = Min (set xs)"
proof (cases xs)
  case (Cons a list)
  then show ?thesis
    using Min.set_eq_fold [of a list] by (simp add: list_min_def)
qed simp




lemma find_price_differences_concat:
  "find_price_differences cfg merged srcs =
     concat (map (\<lambda>r. find_price_differences cfg [r] srcs) merged)"
  by (induction merged)
     (simp_all add: find_price_differences_def List.map_filter_simps split: option.splits)























section \<open>Properties of \<open>_normalize_value\<close> and \<open>_match_value\<close>\<close>

lemmas norm_ev = str_def is_space_def is_digit_def lower_cp_def py_lower_def py_rstrip_def
  py_strip_def unit_tokens_def unit_rest_def is_numch_def normalize_value_def Let_def

lemmas match_ev = match_value_def nums_equal_def same_synonym_set_def synonyms_def
  py_float_def digits_val_def

lemma normalize_dual_pins:
  "normalize_value (str ''45mm | 38mm Pins'') = str ''45mm | 38mm pins''"
  by (simp add: norm_ev)

lemma normalize_38mm: "normalize_value (str ''38mm'') = str ''38''"
  by (simp add: norm_ev)

lemma normalize_50mm: "normalize_value (str ''50mm'') = str ''50''"
  by (simp add: norm_ev)

lemma split_dual_pins:
  "map normalize_value (py_split 124 (str ''45mm | 38mm Pins'')) = [str ''45'', str ''38mm pins'']"
  by (simp add: norm_ev)

text \<open>
  C6. Dual-value matching: \<open>_match_value("45mm | 38mm Pins", "38mm")\<close> is a match and
  \<open>_match_value("45mm | 38mm Pins", "50mm")\<close> is a mismatch.
\<close>

theorem match_value_dual_pins:
  "match_value (str ''45mm | 38mm Pins'') (str ''38mm'') = Some True
   \<and> match_value (str ''45mm | 38mm Pins'') (str ''50mm'') = Some False"
  unfolding match_value_def normalize_dual_pins normalize_38mm normalize_50mm split_dual_pins
  by (simp add: Let_def nums_equal_def str_def is_numch_def is_digit_def)

text \<open>
  C5. The resolver is reflexive on every value whose normal form is not empty; a value
  whose normal form is empty (a bare unit such as \<open>mm\<close>, white space, a lone quote) cannot
  be compared, not even with itself.
\<close>

theorem match_value_reflexive:
  "(normalize_value x \<noteq> [] \<longrightarrow> match_value x x = Some True)
   \<and> (normalize_value x = [] \<longrightarrow> match_value x x = None)"
  by (simp add: match_value_def Let_def)

lemma normalize_mm: "normalize_value (str ''mm'') = []"
  by (simp add: norm_ev)

theorem match_value_reflexive_witness:
  "normalize_value (str ''38mm'') \<noteq> [] \<and> match_value (str ''38mm'') (str ''38mm'') = Some True
   \<and> normalize_value (str ''mm'') = [] \<and> match_value (str ''mm'') (str ''mm'') = None"
proof -
  have a: "normalize_value (str ''38mm'') \<noteq> []"
    unfolding normalize_38mm by (simp add: str_def)
  have b: "normalize_value (str ''mm'') = []"
    by (rule normalize_mm)
  show ?thesis
    using match_value_reflexive [of "str ''38mm''"] match_value_reflexive [of "str ''mm''"] a b
    by simp
qed

theorem match_value_not_reflexive:
  "\<not> (\<forall>x. x \<noteq> [] \<longrightarrow> match_value x x = Some True)"
proof
  assume "\<forall>x. x \<noteq> [] \<longrightarrow> match_value x x = Some True"
  then have "str ''mm'' \<noteq> [] \<longrightarrow> match_value (str ''mm'') (str ''mm'') = Some True"
    by (rule spec)
  moreover have "str ''mm'' \<noteq> []"
    by (simp add: str_def)
  moreover have "match_value (str ''mm'') (str ''mm'') = None"
    by (simp add: match_value_def normalize_mm)
  ultimately show False by simp
qed

text \<open>
  The normal form never contains a comma: \<open>s.replace(',', '')\<close> removes every one, and the
  steps after it add none.
\<close>

lemma py_replace_delete: "py_replace [c] [] s = filter (\<lambda>x. x \<noteq> c) s"
  by (induction s) auto

lemma set_py_rstrip: "set (py_rstrip P s) \<subseteq> set s"
proof -
  have "set (dropWhile P (rev s)) \<subseteq> set (rev s)"
    by (rule set_dropWhileD [THEN subsetI])
  then show ?thesis by (simp add: py_rstrip_def)
qed

lemma normalize_value_no_comma: "44 \<notin> set (normalize_value v)"
proof (cases "v = []")
  case True
  then show ?thesis by (simp add: normalize_value_def)
next
  case False
  then obtain t where "normalize_value v
      = py_rstrip (\<lambda>c. c = 47) (py_replace [39] [] (py_replace [34] [] (py_replace [44] [] t)))"
    by (simp add: normalize_value_def Let_def)
  moreover have "44 \<notin> set (py_replace [39] [] (py_replace [34] [] (py_replace [44] [] t)))"
    by (simp add: py_replace_delete)
  ultimately show ?thesis
    using set_py_rstrip by fastforce
qed

lemma normalize_excavator_attachment:
  "normalize_value (str ''excavator attachment'') = str ''excavator attachment''"
  by (simp add: norm_ev)

lemma normalize_excavators: "normalize_value (str ''excavators'') = str ''excavators''"
  by (simp add: norm_ev)

lemma normalize_comma_field:
  "normalize_value (str ''excavators, skid steer'') = str ''excavators skid steer''"
  by (simp add: norm_ev)

lemma synonym_excavator:
  "same_synonym_set (str ''excavator attachment'') (str ''excavators'')"
  by (simp add: same_synonym_set_def synonyms_def str_def)

lemma synonym_comma_field:
  "\<not> same_synonym_set (str ''excavator attachment'') (str ''excavators skid steer'')"
  by (simp add: same_synonym_set_def synonyms_def str_def)

text \<open>
  C4. The comma-separated branch of \<open>_match_value\<close> tests \<open>"," in a\<close> on the normal form
  \<open>a\<close>, which has no comma left, so the branch never runs. With
  \<open>parsed_val = "excavator attachment"\<close> and \<open>actual_val = "excavators, skid steer"\<close> the
  part \<open>excavators\<close> is in the synonym set of the parsed value, and the verdict is a
  mismatch all the same.
\<close>

theorem match_value_comma_field:
  "(\<forall>v. 44 \<notin> set (normalize_value v))
   \<and> same_synonym_set (normalize_value (str ''excavator attachment''))
        (normalize_value (str ''excavators''))
   \<and> match_value (str ''excavator attachment'') (str ''excavators, skid steer'') = Some False"
proof (intro conjI allI)
  show "44 \<notin> set (normalize_value v)" for v
    by (rule normalize_value_no_comma)
  show "same_synonym_set (normalize_value (str ''excavator attachment''))
          (normalize_value (str ''excavators''))"
    by (simp only: normalize_excavator_attachment normalize_excavators synonym_excavator)
  have "44 \<notin> set (str ''excavators skid steer'')"
    by (simp add: str_def)
  then show "match_value (str ''excavator attachment'') (str ''excavators, skid steer'') = Some False"
    unfolding match_value_def normalize_excavator_attachment normalize_comma_field
    using synonym_comma_field
    by (simp add: Let_def str_def is_numch_def is_digit_def)
qed

section \<open>Properties of \<open>find_name_differences\<close>\<close>











section \<open>Properties of \<open>find_attribute_differences\<close>\<close>

lemma weight_of_parsed:
  "weight_of present name attrs k field =
     (case parsed_weight present name attrs k field of
        None \<Rightarrow> []
      | Some w \<Rightarrow> if w \<noteq> 0 then [(name, w)] else [])"
  by (simp add: weight_of_def parsed_weight_def split: option.splits)

lemma spread_diff_constant:
  assumes "\<forall>p\<in>set vs. snd p = X"
  shows "spread_diff label vs = []"
proof (cases "length vs \<ge> 2")
  case True
  then have ne: "map snd vs \<noteq> []" by auto
  from assms ne have "set (map snd vs) = {X}" by (cases vs) auto
  with ne have "list_max (map snd vs) = X" "list_min (map snd vs) = X"
    by (simp_all add: list_max_Max list_min_Min)
  then show ?thesis by (simp add: spread_diff_def Let_def)
next
  case False
  then show ?thesis by (simp add: spread_diff_def)
qed

lemma spread_diff_attribute: "d \<in> set (spread_diff label vs) \<Longrightarrow> attribute d = label"
  by (auto simp: spread_diff_def Let_def split: if_splits)

lemma col_value_not_attribute: "col ''value_'' s \<noteq> str ''attribute''"
  by (simp add: col_def str_def)

lemma out_keys_distinct:
  "str ''attribute'' \<noteq> str ''diff''" "str ''attribute'' \<noteq> str ''product_name''"
  "str ''attribute'' \<noteq> str ''sku''"
  by (simp_all add: str_def)

lemma fold_value_cols_attribute:
  "fold (\<lambda>s out. out(col ''value_'' s \<mapsto> f s)) names d0 (str ''attribute'') = d0 (str ''attribute'')"
  using col_value_not_attribute [symmetric]
  by (induction names arbitrary: d0) simp_all

lemma attribute_diff_rows_attribute:
  assumes "out \<in> set (attribute_diff_rows names z w g r)" "r (str ''sku'') = Some (VStr k)"
  shows "\<exists>d \<in> set (weight_diffs (filter (\<lambda>s. truthy (row_get r (col ''in_'' s) (VBool False))) names) z w g k
                  @ shipping_weight_diffs (filter (\<lambda>s. truthy (row_get r (col ''in_'' s) (VBool False))) names) z g k
                  @ dimension_diffs (filter (\<lambda>s. truthy (row_get r (col ''in_'' s) (VBool False))) names) z g k).
           out (str ''attribute'') = Some (VStr (attribute d))"
proof -
  from assms(2) have k: "row_get r (str ''sku'') VNone = VStr k"
    by (simp add: row_get_def)
  from assms(1) show ?thesis
    unfolding attribute_diff_rows_def k Let_def
    by (auto simp: fold_value_cols_attribute out_keys_distinct split: if_splits)
qed

lemma other_labels:
  "str ''Shipping Weight (lb)'' \<noteq> str ''Weight (lb)''"
  "str ''Shipping Length (in)'' \<noteq> str ''Weight (lb)''"
  "str ''Shipping Width (in)'' \<noteq> str ''Weight (lb)''"
  "str ''Shipping Height (in)'' \<noteq> str ''Weight (lb)''"
  by (simp_all add: str_def)

lemma other_diffs_attribute:
  "d \<in> set (shipping_weight_diffs present z g k) \<Longrightarrow> attribute d \<noteq> str ''Weight (lb)''"
  "d \<in> set (dimension_diffs present z g k) \<Longrightarrow> attribute d \<noteq> str ''Weight (lb)''"
  using other_labels
  by (auto simp: shipping_weight_diffs_def dimension_diffs_def Let_def
        dest!: spread_diff_attribute split: if_splits)

lemma weight_of_all:
  assumes "\<And>x. parsed_weight present name attrs k field = Some x \<Longrightarrow> x = 0 \<or> x = X"
  shows "\<forall>p\<in>set (weight_of present name attrs k field). snd p = X"
proof (cases "parsed_weight present name attrs k field")
  case None
  then show ?thesis by (simp add: weight_of_parsed)
next
  case (Some x)
  with assms [OF Some] show ?thesis by (auto simp: weight_of_parsed)
qed

lemma weight_diffs_zero_or_one:
  assumes "\<forall>x. Some x \<in> {parsed_weight present (str ''zoho'') z k (str ''weight''),
                          parsed_weight present (str ''website'') w k (str ''weight''),
                          parsed_weight present (str ''google'') g k (str ''weight_lb'')}
               \<longrightarrow> x = 0 \<or> x = X"
  shows "weight_diffs present z w g k = []"
proof -
  have "\<forall>p\<in>set (weight_of present (str ''zoho'') z k (str ''weight'')). snd p = X"
    by (rule weight_of_all) (use assms in simp)
  moreover have "\<forall>p\<in>set (weight_of present (str ''website'') w k (str ''weight'')). snd p = X"
    by (rule weight_of_all) (use assms in simp)
  moreover have "\<forall>p\<in>set (weight_of present (str ''google'') g k (str ''weight_lb'')). snd p = X"
    by (rule weight_of_all) (use assms in simp)
  ultimately have "\<forall>p\<in>set (weight_of present (str ''zoho'') z k (str ''weight'')
                 @ weight_of present (str ''website'') w k (str ''weight'')
                 @ weight_of present (str ''google'') g k (str ''weight_lb'')). snd p = X"
    by (simp add: ball_Un)
  then show ?thesis
    unfolding weight_diffs_def Let_def by (rule spread_diff_constant)
qed

text \<open>
  C10. A source whose weight text parses to 0 adds nothing to the dict of weights. So when
  the weights parsed for a product are 0 and one other number \<open>X\<close>, whatever \<open>X\<close> is, the
  weight comparison finds nothing and no row of \<open>find_attribute_differences\<close> has the
  attribute \<open>Weight (lb)\<close>.
\<close>

theorem zero_weight_is_no_weight:
  "(parsed_weight present name attrs k field = Some 0 \<longrightarrow> weight_of present name attrs k field = [])
   \<and> (let compared = filter (\<lambda>s. truthy (row_get r (col ''in_'' s) (VBool False))) (map fst srcs)
      in r (str ''sku'') = Some (VStr k)
         \<and> (\<forall>x. Some x \<in> {parsed_weight compared (str ''zoho'') z k (str ''weight''),
                             parsed_weight compared (str ''website'') w k (str ''weight''),
                             parsed_weight compared (str ''google'') g k (str ''weight_lb'')}
                  \<longrightarrow> x = 0 \<or> x = X)
         \<longrightarrow> weight_diffs compared z w g k = []
           \<and> (\<forall>out\<in>set (find_attribute_differences z w g [r] srcs).
                 out (str ''attribute'') \<noteq> Some (VStr (str ''Weight (lb)''))))"
proof (intro conjI impI)
  assume "parsed_weight present name attrs k field = Some 0"
  then show "weight_of present name attrs k field = []"
    by (simp add: weight_of_parsed)
next
  let ?c = "filter (\<lambda>s. truthy (row_get r (col ''in_'' s) (VBool False))) (map fst srcs)"
  show "let compared = ?c
      in r (str ''sku'') = Some (VStr k)
         \<and> (\<forall>x. Some x \<in> {parsed_weight compared (str ''zoho'') z k (str ''weight''),
                             parsed_weight compared (str ''website'') w k (str ''weight''),
                             parsed_weight compared (str ''google'') g k (str ''weight_lb'')}
                  \<longrightarrow> x = 0 \<or> x = X)
         \<longrightarrow> weight_diffs compared z w g k = []
           \<and> (\<forall>out\<in>set (find_attribute_differences z w g [r] srcs).
                 out (str ''attribute'') \<noteq> Some (VStr (str ''Weight (lb)'')))"
    unfolding Let_def
  proof (intro impI)
    assume "r (str ''sku'') = Some (VStr k)
         \<and> (\<forall>x. Some x \<in> {parsed_weight ?c (str ''zoho'') z k (str ''weight''),
                             parsed_weight ?c (str ''website'') w k (str ''weight''),
                             parsed_weight ?c (str ''google'') g k (str ''weight_lb'')}
                  \<longrightarrow> x = 0 \<or> x = X)"
    then have sku: "r (str ''sku'') = Some (VStr k)"
      and ws: "\<forall>x. Some x \<in> {parsed_weight ?c (str ''zoho'') z k (str ''weight''),
                             parsed_weight ?c (str ''website'') w k (str ''weight''),
                             parsed_weight ?c (str ''google'') g k (str ''weight_lb'')}
                  \<longrightarrow> x = 0 \<or> x = X"
      by blast+
    from ws have none: "weight_diffs ?c z w g k = []"
      by (rule weight_diffs_zero_or_one)
    have "out (str ''attribute'') \<noteq> Some (VStr (str ''Weight (lb)''))"
      if "out \<in> set (find_attribute_differences z w g [r] srcs)" for out
    proof -
      from that have "out \<in> set (attribute_diff_rows (map fst srcs) z w g r)"
        by (simp add: find_attribute_differences_def)
      from attribute_diff_rows_attribute [OF this sku]
      obtain d where d: "d \<in> set (shipping_weight_diffs ?c z g k) \<or> d \<in> set (dimension_diffs ?c z g k)"
        and out: "out (str ''attribute'') = Some (VStr (attribute d))"
        unfolding none by auto
      from d have "attribute d \<noteq> str ''Weight (lb)''"
        by (auto dest: other_diffs_attribute)
      with out show ?thesis by simp
    qed
    with none show "weight_diffs ?c z w g k = []
           \<and> (\<forall>out\<in>set (find_attribute_differences z w g [r] srcs).
                 out (str ''attribute'') \<noteq> Some (VStr (str ''Weight (lb)'')))"
      by blast
  qed
qed

lemma parse_weight_zero: "parse_weight (Some (str ''0 lb'')) = Some 0"
  by (simp add: parse_weight_def py_float_def digits_val_def py_round2_def norm_ev)

lemma parse_weight_170: "parse_weight (Some (str ''170.23 lb'')) = Some (17023 / 100)"
  by (simp add: parse_weight_def py_float_def digits_val_def py_round2_def norm_ev)

theorem zero_weight_is_no_weight_witness:
  "parsed_weight [str ''zoho'', str ''website''] (str ''zoho'') ex_zoho_attrs (str ''SKU-100'') (str ''weight'') = Some 0
   \<and> weight_of [str ''zoho'', str ''website''] (str ''zoho'') ex_zoho_attrs (str ''SKU-100'') (str ''weight'') = []
   \<and> find_attribute_differences ex_zoho_attrs ex_web_attrs Map.empty [ex_weight_row]
        [(str ''zoho'', []), (str ''website'', [])] = []"
proof -
  let ?p = "[str ''zoho'', str ''website'']"
  have z: "parsed_weight ?p (str ''zoho'') ex_zoho_attrs (str ''SKU-100'') (str ''weight'') = Some 0"
    using parse_weight_zero by (simp add: parsed_weight_def ex_zoho_attrs_def)
  have "weight_of ?p (str ''zoho'') ex_zoho_attrs (str ''SKU-100'') (str ''weight'') = []"
    using zero_weight_is_no_weight [of ?p "str ''zoho''" ex_zoho_attrs "str ''SKU-100''" "str ''weight''"] z
    by simp
  moreover have "find_attribute_differences ex_zoho_attrs ex_web_attrs Map.empty [ex_weight_row]
        [(str ''zoho'', []), (str ''website'', [])] = []"
    using parse_weight_zero parse_weight_170
    by (simp add: find_attribute_differences_def attribute_diff_rows_def ex_weight_row_def
          weight_diffs_def shipping_weight_diffs_def dimension_diffs_def weight_of_def dims_of_def
          spread_diff_def ex_zoho_attrs_def ex_web_attrs_def parse_weight_def parse_dimensions_def
          row_get_def col_def str_def Let_def)
  ultimately show ?thesis using z by simp
qed

section \<open>Properties of the cell status\<close>










section \<open>Properties of \<open>parse_name\<close>\<close>

lemma rmatch_sound: "t \<in> set (rmatch r s) \<Longrightarrow> \<exists>m. s = m @ t \<and> m \<in> lang r"
proof (induction r s arbitrary: t rule: rmatch.induct)
  case (1 P)
  then show ?case by simp
next
  case (2 P c cs)
  then show ?case by (auto split: if_splits)
next
  case (3 s)
  then show ?case by simp
next
  case (4 a b s)
  from "4.prems" obtain u where u: "u \<in> set (rmatch a s)" and t: "t \<in> set (rmatch b u)"
    by auto
  from "4.IH"(1) [OF u] obtain m1 where m1: "s = m1 @ u" "m1 \<in> lang a" by blast
  from "4.IH"(2) [OF u t] obtain m2 where m2: "u = m2 @ t" "m2 \<in> lang b" by blast
  from m1(2) m2(2) have "m1 @ m2 \<in> lang (Seq a b)"
    unfolding lang.simps by blast
  moreover from m1(1) m2(1) have "s = (m1 @ m2) @ t"
    by simp
  ultimately show ?case by blast
next
  case (5 a b s)
  then show ?case by auto
next
  case (6 a s)
  have "rmatch (Star a) s
          = concat (map (\<lambda>u. if length u < length s then rmatch (Star a) u else [])
                      (rmatch a s)) @ [s]"
    by (rule rmatch.simps(6))
  with "6.prems"
  have "t \<in> set (concat (map (\<lambda>u. if length u < length s then rmatch (Star a) u else [])
                             (rmatch a s)) @ [s])"
    by (rule subst [where P = "\<lambda>x. t \<in> set x", rotated])
  then consider "t = s"
    | u where "u \<in> set (rmatch a s)"
        "t \<in> set (if length u < length s then rmatch (Star a) u else [])"
    by (auto simp del: rmatch.simps)
  then show ?case
  proof cases
    case 1
    then have "s = [] @ t \<and> [] \<in> lang (Star a)"
      by (simp add: star_empty)
    then show ?thesis by blast
  next
    case 2
    then have less: "length u < length s" and t: "t \<in> set (rmatch (Star a) u)"
      by (auto split: if_splits simp del: rmatch.simps)
    from "6.IH"(1) [OF 2(1)] obtain m1 where m1: "s = m1 @ u" "m1 \<in> lang a"
      by blast
    from "6.IH"(2) [OF 2(1) less t] obtain m2 where m2: "u = m2 @ t" "m2 \<in> lang (Star a)"
      by blast
    from m1(2) m2(2) have "m1 @ m2 \<in> lang (Star a)"
      unfolding lang.simps by (rule star_step)
    moreover from m1(1) m2(1) have "s = (m1 @ m2) @ t"
      by simp
    ultimately show ?thesis by blast
  qed
qed

lemma first_some_Some: "first_some f xs = Some y \<Longrightarrow> \<exists>x\<in>set xs. f x = Some y"
  by (induction xs) (auto split: option.splits)

lemma seg_match_sound:
  "seg_match rs s = Some gs \<Longrightarrow> (\<exists>rest. s = concat gs @ rest) \<and> list_all2 (\<lambda>g r. g \<in> lang r) gs rs"
proof (induction rs arbitrary: s gs)
  case Nil
  then show ?case by simp
next
  case (Cons r rs)
  let ?f = "\<lambda>t. case seg_match rs t of
                   None \<Rightarrow> None
                 | Some gs' \<Rightarrow> Some (take (length s - length t) s # gs')"
  from Cons.prems have "first_some ?f (rmatch r s) = Some gs"
    by simp
  from first_some_Some [OF this] obtain t where t: "t \<in> set (rmatch r s)" and ft: "?f t = Some gs"
    by blast
  from ft obtain gs' where gs': "seg_match rs t = Some gs'"
    and gs: "gs = take (length s - length t) s # gs'"
    by (cases "seg_match rs t") auto
  from rmatch_sound [OF t] obtain m where m: "s = m @ t" "m \<in> lang r"
    by blast
  then have tk: "take (length s - length t) s = m"
    by simp
  from Cons.IH [OF gs'] obtain rest where rest: "t = concat gs' @ rest"
    and all: "list_all2 (\<lambda>g r. g \<in> lang r) gs' rs"
    by blast
  from m(1) rest have "s = concat (m # gs') @ rest"
    by simp
  moreover from all m(2) have "list_all2 (\<lambda>g r. g \<in> lang r) (m # gs') (r # rs)"
    by simp
  ultimately show ?case
    unfolding gs tk by blast
qed

lemma star_digits: "w \<in> star {[c] |c. is_digit c} \<Longrightarrow> list_all is_digit w"
  by (induction rule: star.induct) auto

lemma lang_Plus_dg: "m \<in> lang (Plus dg) \<Longrightarrow> m \<noteq> [] \<and> list_all is_digit m"
  by (auto simp: Plus_def dg_def dest: star_digits)

lemma lang_number:
  assumes "m \<in> lang (Seq (Plus dg) (Opt (Seq (Chr (\<lambda>c. c = 46)) (Plus dg))))"
  shows "\<exists>ds fr. m = ds @ fr \<and> ds \<noteq> [] \<and> list_all is_digit ds
           \<and> (fr = [] \<or> (\<exists>ds'. fr = 46 # ds' \<and> ds' \<noteq> [] \<and> list_all is_digit ds'))"
proof -
  from assms obtain ds fr where m: "m = ds @ fr" and ds: "ds \<in> lang (Plus dg)"
    and fr: "fr \<in> lang (Opt (Seq (Chr (\<lambda>c. c = 46)) (Plus dg)))"
    by auto
  from fr have "fr = [] \<or> (\<exists>ds'. fr = 46 # ds' \<and> ds' \<in> lang (Plus dg))"
    by (auto simp: Opt_def)
  with m ds show ?thesis
    by (metis lang_Plus_dg)
qed

lemma takeWhile_all: "list_all P xs \<Longrightarrow> \<not> P y \<Longrightarrow> takeWhile P (xs @ y # zs) = xs"
  by (induction xs) auto

lemma dropWhile_all: "list_all P xs \<Longrightarrow> \<not> P y \<Longrightarrow> dropWhile P (xs @ y # zs) = y # zs"
  by (induction xs) auto

lemma quote_not_digit: "is_quote q \<Longrightarrow> \<not> is_digit q \<and> q \<noteq> 46"
  by (auto simp: is_quote_def is_digit_def)

lemma bucket_size_match:
  assumes "re_match rx_bucket_size t = Some gs"
  shows "\<exists>g1 q rest. gs = g1 # rest \<and> g1 = leading_number t \<and> g1 \<noteq> [] \<and> is_quote q
           \<and> prefix (g1 @ [q]) t"
proof -
  from seg_match_sound [OF assms [unfolded re_match_def]]
  obtain rest where t: "t = concat gs @ rest"
    and all: "list_all2 (\<lambda>g r. g \<in> lang r) gs rx_bucket_size"
    by blast
  from all obtain g1 g2 g3 where gs: "gs = [g1, g2, g3]"
    and g1: "g1 \<in> lang (Seq (Plus dg) (Opt (Seq (Chr (\<lambda>c. c = 46)) (Plus dg))))"
    and g2: "g2 \<in> lang (Chr is_quote)" and g3: "g3 \<in> lang sp"
    by (auto simp: rx_bucket_size_def list_all2_Cons2 simp del: lang.simps)
  from g2 obtain q where q: "g2 = [q]" "is_quote q" by auto
  from lang_number [OF g1] obtain ds fr where m: "g1 = ds @ fr" "ds \<noteq> []" "list_all is_digit ds"
    and fr: "fr = [] \<or> (\<exists>ds'. fr = 46 # ds' \<and> ds' \<noteq> [] \<and> list_all is_digit ds')"
    by blast
  from t gs q m have t': "t = ds @ fr @ q # (g3 @ rest)" by simp
  note nd = quote_not_digit [OF q(2)]
  have "leading_number t = g1"
  proof (cases "fr = []")
    case True
    with t' have "t = ds @ q # (g3 @ rest)" by simp
    then have "takeWhile is_digit t = ds" "dropWhile is_digit t = q # (g3 @ rest)"
      using m(3) nd by (simp_all add: takeWhile_all dropWhile_all)
    then show ?thesis
      using m True nd by (simp add: leading_number_def)
  next
    case False
    with fr obtain ds' where ds': "fr = 46 # ds'" "ds' \<noteq> []" "list_all is_digit ds'" by blast
    with t' have t'': "t = ds @ 46 # (ds' @ q # (g3 @ rest))" by simp
    have "\<not> is_digit 46" by (simp add: is_digit_def)
    with t'' have "takeWhile is_digit t = ds" "dropWhile is_digit t = 46 # (ds' @ q # (g3 @ rest))"
      using m(3) by (simp_all add: takeWhile_all dropWhile_all)
    moreover have "takeWhile is_digit (ds' @ q # (g3 @ rest)) = ds'"
      using ds'(3) nd by (simp add: takeWhile_all)
    ultimately show ?thesis
      using m ds' by (simp add: leading_number_def)
  qed
  moreover have "prefix (g1 @ [q]) t"
    using t' m by (simp add: prefix_def)
  ultimately show ?thesis
    using gs q m by auto
qed

lemma label_other:
  "str ''Diameter (mm)'' \<noteq> str ''Bucket Size''" "str ''Pin Size'' \<noteq> str ''Bucket Size''"
  "str ''Carrier Weight Class'' \<noteq> str ''Bucket Size''" "str ''Machine Type'' \<noteq> str ''Bucket Size''"
  "str ''Coupler Type'' \<noteq> str ''Bucket Size''" "str ''Product Type'' \<noteq> str ''Bucket Size''"
  "str ''Hex Size'' \<noteq> str ''Bucket Size''" "str ''Dimensions (mm)'' \<noteq> str ''Bucket Size''"
  "str ''Length (mm)'' \<noteq> str ''Bucket Size''" "str ''Fits To'' \<noteq> str ''Bucket Size''"
  "str ''Attachment Types'' \<noteq> str ''Bucket Size''"
  by (simp_all add: str_def)

lemma rules_keep_bucket_size:
  "rule_diameter t a (str ''Bucket Size'') = a (str ''Bucket Size'')"
  "rule_pin_size t a (str ''Bucket Size'') = a (str ''Bucket Size'')"
  "rule_weight_class t a (str ''Bucket Size'') = a (str ''Bucket Size'')"
  "rule_coupler_type t a (str ''Bucket Size'') = a (str ''Bucket Size'')"
  "rule_product_type t a (str ''Bucket Size'') = a (str ''Bucket Size'')"
  "rule_hex_size t a (str ''Bucket Size'') = a (str ''Bucket Size'')"
  "rule_shim t a (str ''Bucket Size'') = a (str ''Bucket Size'')"
  "rule_pin_length t a (str ''Bucket Size'') = a (str ''Bucket Size'')"
  "rule_fits_to t a (str ''Bucket Size'') = a (str ''Bucket Size'')"
  "rule_attachment_types t a (str ''Bucket Size'') = a (str ''Bucket Size'')"
  using label_other [symmetric]
  by (simp_all add: rule_diameter_def rule_pin_size_def rule_weight_class_def rule_coupler_type_def
        rule_product_type_def rule_hex_size_def rule_shim_def rule_pin_length_def rule_fits_to_def
        rule_attachment_types_def Let_def split: option.splits list.splits)

lemma parse_name_bucket_size:
  "parse_name title category0 (str ''Bucket Size'') =
     (if title = [] then None
      else case re_match rx_bucket_size (py_strip title) of
             None \<Rightarrow> None
           | Some gs \<Rightarrow> (case gs of [] \<Rightarrow> None | g1 # rest \<Rightarrow> Some (g1 @ [34])))"
  by (simp add: parse_name_def Let_def rules_keep_bucket_size rule_bucket_size_def
        split: option.splits list.splits)

text \<open>
  C7. The title is stripped first. When its leading numeric token is missing, or is not
  followed at once by one of the quote glyphs \<open>"\<close>, U+201C, U+201D, U+2033, the label
  \<open>Bucket Size\<close> is not set; \<open>800 Joules Energy Hammer\<close> is such a title. (When the label is
  set, its value is that token with a straight quote.)
\<close>

theorem parse_name_bucket_size_guard:
  "(let t = py_strip title; tok = leading_number t
    in (tok = [] \<or> (\<forall>q. is_quote q \<longrightarrow> \<not> prefix (tok @ [q]) t)
          \<longrightarrow> parse_name title category0 (str ''Bucket Size'') = None)
       \<and> (\<forall>v. parse_name title category0 (str ''Bucket Size'') = Some v \<longrightarrow> v = tok @ [34]))
   \<and> parse_name (str ''800 Joules Energy Hammer'') category0 (str ''Bucket Size'') = None"
proof -
  have guard: "parse_name title category0 (str ''Bucket Size'') = None"
    if "leading_number (py_strip title) = []
        \<or> (\<forall>q. is_quote q \<longrightarrow> \<not> prefix (leading_number (py_strip title) @ [q]) (py_strip title))"
    for title category0
  proof (cases "title = [] \<or> re_match rx_bucket_size (py_strip title) = None")
    case True
    then show ?thesis by (auto simp: parse_name_bucket_size)
  next
    case False
    then obtain gs where "re_match rx_bucket_size (py_strip title) = Some gs" by auto
    from bucket_size_match [OF this] that show ?thesis by auto
  qed
  have val: "v = leading_number (py_strip title) @ [34]"
    if "parse_name title category0 (str ''Bucket Size'') = Some v" for v
  proof -
    from that obtain gs where gs: "re_match rx_bucket_size (py_strip title) = Some gs"
      by (auto simp: parse_name_bucket_size split: if_splits option.splits)
    from bucket_size_match [OF gs] that gs show ?thesis
      by (auto simp: parse_name_bucket_size split: if_splits)
  qed
  have "leading_number (py_strip (str ''800 Joules Energy Hammer'')) = str ''800''"
    by (simp add: leading_number_def norm_ev)
  moreover have "\<not> prefix (str ''800'' @ [q]) (py_strip (str ''800 Joules Energy Hammer''))"
    if "is_quote q" for q
    using that by (auto simp: norm_ev is_quote_def)
  ultimately have "parse_name (str ''800 Joules Energy Hammer'') category0 (str ''Bucket Size'') = None"
    by (intro guard) simp
  with guard val show ?thesis
    unfolding Let_def by blast
qed

lemma re_match_bucket_42:
  "re_match rx_bucket_size (str ''42\" Ditching Bucket'') = Some [str ''42'', [34], [32]]"
  by (simp add: re_match_def rx_bucket_size_def Plus_def Opt_def dg_def sp_def is_quote_def
        is_digit_def is_space_def str_def)

lemma strip_bucket_42: "py_strip (str ''42\" Ditching Bucket'') = str ''42\" Ditching Bucket''"
  by (simp add: norm_ev)

theorem parse_name_bucket_size_guard_witness:
  "leading_number (py_strip (str ''800 Joules Energy Hammer'')) = str ''800''
   \<and> parse_name (str ''800 Joules Energy Hammer'') [] (str ''Bucket Size'') = None
   \<and> parse_name (str ''42\" Ditching Bucket'') [] (str ''Bucket Size'') = Some (str ''42\"'')"
proof -
  have tok: "leading_number (py_strip (str ''800 Joules Energy Hammer'')) = str ''800''"
    by (simp add: leading_number_def norm_ev)
  have "\<forall>q. is_quote q \<longrightarrow> \<not> prefix (str ''800'' @ [q]) (py_strip (str ''800 Joules Energy Hammer''))"
    by (auto simp: norm_ev is_quote_def)
  with tok have "parse_name (str ''800 Joules Energy Hammer'') [] (str ''Bucket Size'') = None"
    using parse_name_bucket_size_guard [of "str ''800 Joules Energy Hammer''" "[]"]
    by (simp add: Let_def)
  moreover have "parse_name (str ''42\" Ditching Bucket'') [] (str ''Bucket Size'') = Some (str ''42\"'')"
    unfolding parse_name_bucket_size strip_bucket_42 re_match_bucket_42
    by (simp add: str_def)
  ultimately show ?thesis
    using tok by simp
qed

section \<open>When \<open>_normalize_value\<close> is idempotent\<close>

subsection \<open>The characters of a normal form\<close>














subsection \<open>Steps that leave a settled string as it is\<close>




lemma unit_tokens_nonempty: "tok \<in> set unit_tokens \<Longrightarrow> tok \<noteq> []"
  by (auto simp: unit_tokens_def str_def)

















end
